theory Spec2Isabelle
  imports Main
begin

section \<open>Qt strings\<close>

text \<open>
  \<^verbatim>\<open>QString\<close> and \<^verbatim>\<open>QByteArray\<close> values are modelled as \<^typ>\<open>string\<close>, a list of
  8-bit characters. The texts that \<^verbatim>\<open>connection.cpp\<close> inspects (command names, the
  \<^verbatim>\<open>INFO\<close> keys, digits, host names) are ASCII, and the case conversions below act on
  the ASCII letters only.
\<close>

definition CR :: char where
  "CR = CHR 0x0D"

definition LF :: char where
  "LF = CHR 0x0A"

definition to_lower :: "char \<Rightarrow> char" where
  "to_lower c =
     (case map_of (zip ''ABCDEFGHIJKLMNOPQRSTUVWXYZ'' ''abcdefghijklmnopqrstuvwxyz'') c of
        Some l \<Rightarrow> l
      | None \<Rightarrow> c)"

text \<open>\<^verbatim>\<open>QString::toLower\<close>.\<close>

definition toLower :: "string \<Rightarrow> string" where
  "toLower s = map to_lower s"

definition is_digit :: "char \<Rightarrow> bool" where
  "is_digit c = (c \<in> set ''0123456789'')"

definition is_alpha :: "char \<Rightarrow> bool" where
  "is_alpha c = (to_lower c \<in> set ''abcdefghijklmnopqrstuvwxyz'')"

definition is_space :: "char \<Rightarrow> bool" where
  "is_space c = (c \<in> set [CHR '' '', CHR 0x09, CHR 0x0A, CHR 0x0B, CHR 0x0C, CHR 0x0D])"

definition digit_value :: "char \<Rightarrow> nat" where
  "digit_value c = of_char c - 48"

text \<open>The number a string of decimal digits denotes, most significant digit first.\<close>

definition digits_value :: "string \<Rightarrow> nat" where
  "digits_value ds = foldl (\<lambda>n c. 10 * n + digit_value c) 0 ds"

text \<open>
  \<^verbatim>\<open>QString::toInt()\<close> (base 10, no \<^verbatim>\<open>ok\<close> pointer): white space around the number is
  skipped, one sign is accepted, and the result is 0 when the text is not a number or the
  number does not fit a 32-bit \<^verbatim>\<open>int\<close>.
\<close>

definition toInt :: "string \<Rightarrow> int" where
  "toInt s =
     (let t = rev (dropWhile is_space (rev (dropWhile is_space s)));
          neg = (t \<noteq> [] \<and> hd t = CHR ''-'');
          ds = (if t \<noteq> [] \<and> (hd t = CHR ''-'' \<or> hd t = CHR ''+'') then tl t else t);
          v = (if neg then - int (digits_value ds) else int (digits_value ds))
      in if ds \<noteq> [] \<and> list_all is_digit ds \<and> - 2147483648 \<le> v \<and> v \<le> 2147483647
         then v else 0)"

text \<open>\<^verbatim>\<open>QString::number(n)\<close> for an integer: the decimal digits, with a minus sign.\<close>

fun nat_digits :: "nat \<Rightarrow> string" where
  "nat_digits n =
     (if n < 10 then [''0123456789'' ! n]
      else nat_digits (n div 10) @ [''0123456789'' ! (n mod 10)])"

definition number :: "int \<Rightarrow> string" where
  "number n = (if n < 0 then CHR ''-'' # nat_digits (nat (- n)) else nat_digits (nat n))"

text \<open>\<^verbatim>\<open>QString::split("\r\n")\<close>: empty parts are kept, so the result is never empty.\<close>

fun split_crlf :: "string \<Rightarrow> string \<Rightarrow> string list" where
  "split_crlf cur [] = [cur]"
| "split_crlf cur [c] = [cur @ [c]]"
| "split_crlf cur (c # d # cs) =
     (if c = CR \<and> d = LF then cur # split_crlf [] cs else split_crlf (cur @ [c]) (d # cs))"

text \<open>
  \<^verbatim>\<open>QString::arg(a)\<close>. A place marker is \<^verbatim>\<open>%\<close>, an optional \<^verbatim>\<open>L\<close>, and one or two digits.
  \<open>place_marker\<close> looks at the text after a \<^verbatim>\<open>%\<close> and returns the number of the marker and
  how many characters after the \<^verbatim>\<open>%\<close> belong to it. \<open>arg\<close> replaces every marker that has
  the lowest number in the text by \<open>a\<close>, and leaves a text without a marker as it is. The
  \<^verbatim>\<open>L\<close> asks for a number in the format of the locale; the model writes \<open>a\<close> there too.
\<close>

definition place_marker :: "string \<Rightarrow> (nat \<times> nat) option" where
  "place_marker cs =
     (let l = (if cs \<noteq> [] \<and> hd cs = CHR ''L'' then 1 else 0);
          r = drop l cs
      in if r \<noteq> [] \<and> is_digit (hd r) then
           (if tl r \<noteq> [] \<and> is_digit (hd (tl r))
            then Some (10 * digit_value (hd r) + digit_value (hd (tl r)), l + 2)
            else Some (digit_value (hd r), l + 1))
         else None)"

fun place_markers :: "string \<Rightarrow> nat list" where
  "place_markers [] = []"
| "place_markers (c # cs) =
     (if c = CHR ''%'' then
        (case place_marker cs of
           Some (n, len) \<Rightarrow> n # place_markers cs
         | None \<Rightarrow> place_markers cs)
      else place_markers cs)"

text \<open>
  \<open>replace_markers skip m a s\<close> copies \<open>s\<close> with \<open>a\<close> in the place of the markers numbered
  \<open>m\<close>; \<open>skip\<close> is the number of characters that still belong to a marker just replaced.
\<close>

fun replace_markers :: "nat \<Rightarrow> nat \<Rightarrow> string \<Rightarrow> string \<Rightarrow> string" where
  "replace_markers skip m a [] = []"
| "replace_markers (Suc skip) m a (c # cs) = replace_markers skip m a cs"
| "replace_markers 0 m a (c # cs) =
     (if c = CHR ''%'' then
        (case place_marker cs of
           Some (n, len) \<Rightarrow>
             (if n = m then a @ replace_markers len m a cs else c # replace_markers 0 m a cs)
         | None \<Rightarrow> c # replace_markers 0 m a cs)
      else c # replace_markers 0 m a cs)"

definition arg :: "string \<Rightarrow> string \<Rightarrow> string" where
  "arg s a =
     (case place_markers s of
        [] \<Rightarrow> s
      | n # ns \<Rightarrow> replace_markers 0 (fold min ns n) a s)"

text \<open>\<^verbatim>\<open>QString::indexOf(':')\<close>, with \<open>None\<close> for the source's \<open>-1\<close>.\<close>

fun indexOf :: "char \<Rightarrow> string \<Rightarrow> nat option" where
  "indexOf x [] = None"
| "indexOf x (c # cs) =
     (if c = x then Some 0 else (case indexOf x cs of None \<Rightarrow> None | Some i \<Rightarrow> Some (Suc i)))"

section \<open>An ordered map: \<^verbatim>\<open>QMap<int, int>\<close>\<close>

text \<open>
  \<^verbatim>\<open>DatabaseList\<close> is a \<^verbatim>\<open>QMap<int, int>\<close>: its entries are kept in ascending key order and
  \<^verbatim>\<open>insert\<close> replaces the value of a key that is present. It is modelled as the list of its
  entries in iteration order.
\<close>

type_synonym DatabaseList = "(int \<times> int) list"

fun qmap_insert :: "int \<Rightarrow> int \<Rightarrow> DatabaseList \<Rightarrow> DatabaseList" where
  "qmap_insert k v [] = [(k, v)]"
| "qmap_insert k v ((k', v') # m) =
     (if k < k' then (k, v) # (k', v') # m
      else if k = k' then (k, v) # m
      else (k', v') # qmap_insert k v m)"

definition qmap_contains :: "DatabaseList \<Rightarrow> int \<Rightarrow> bool" where
  "qmap_contains m k = (k \<in> set (map fst m))"

text \<open>\<^verbatim>\<open>QMap::lastKey()\<close>; the source calls it on a map that is not empty only.\<close>

definition qmap_lastKey :: "DatabaseList \<Rightarrow> int" where
  "qmap_lastKey m = fst (last m)"

section \<open>\<^verbatim>\<open>ServerInfo\<close>\<close>

text \<open>
  The field \<open>version\<close> is a \<^verbatim>\<open>double\<close> in the source; the model keeps the text the version
  pattern captured, \<open>None\<close> standing for the source's \<open>0.0\<close> when the pattern does not match.
\<close>

record ServerInfo =
  version :: "string option"
  clusterMode :: bool
  sentinelMode :: bool
  databases :: DatabaseList
  parsed :: "string \<rightharpoonup> (string \<rightharpoonup> string)"

text \<open>The default constructor \<^verbatim>\<open>ServerInfo::ServerInfo()\<close>.\<close>

definition ServerInfo_new :: ServerInfo where
  "ServerInfo_new =
     \<lparr>version = None, clusterMode = False, sentinelMode = False, databases = [],
      parsed = Map.empty\<rparr>"

text \<open>
  One round of the \<^verbatim>\<open>foreach (QString line, lines)\<close> loop of \<^verbatim>\<open>fromString\<close>; the loop state
  is the map built so far and \<open>currentSection\<close>.
\<close>

definition parse_line ::
  "(string \<rightharpoonup> (string \<rightharpoonup> string)) \<times> string \<Rightarrow> string \<Rightarrow>
   (string \<rightharpoonup> (string \<rightharpoonup> string)) \<times> string" where
  "parse_line st line =
     (let (parsed, currentSection) = st in
      if line \<noteq> [] \<and> hd line = CHR ''#'' then (parsed, toLower (drop 2 line))
      else
        (case indexOf (CHR '':'') line of
           None \<Rightarrow> (parsed, currentSection)
         | Some posOfSeparator \<Rightarrow>
             (let section = (case parsed currentSection of None \<Rightarrow> Map.empty | Some s \<Rightarrow> s)
              in (parsed(currentSection \<mapsto>
                    section(take posOfSeparator line \<mapsto> drop (posOfSeparator + 1) line)),
                  currentSection))))"

text \<open>
  The patterns. A pattern is modelled by the function that tries it at the very start of a
  text and returns what the capture groups hold; \<open>regex_search\<close> then gives the leftmost
  match, which is what \<^verbatim>\<open>QRegExp::indexIn\<close> finds. Both \<^verbatim>\<open>QRegExp\<close> patterns are case
  insensitive and their quantifiers are greedy; since a run of digits (letters) can only
  be followed by a character that is no digit (letter), the greedy match is the maximal
  run.
\<close>

definition ci_prefix :: "string \<Rightarrow> string \<Rightarrow> bool" where
  "ci_prefix p s = (length p \<le> length s \<and> toLower (take (length p) s) = toLower p)"

text \<open>\<^verbatim>\<open>redis_version:([0-9]+\.[0-9]+)\<close>\<close>

definition versionRegex :: "string \<Rightarrow> string option" where
  "versionRegex s =
     (if ci_prefix ''redis_version:'' s then
        (let r = drop 14 s;
             major = takeWhile is_digit r;
             r1 = dropWhile is_digit r;
             minor = takeWhile is_digit (tl r1)
         in if major \<noteq> [] \<and> r1 \<noteq> [] \<and> hd r1 = CHR ''.'' \<and> minor \<noteq> []
            then Some (major @ ''.'' @ minor) else None)
      else None)"

text \<open>\<^verbatim>\<open>redis_mode:([a-z]+)\<close>\<close>

definition modeRegex :: "string \<Rightarrow> string option" where
  "modeRegex s =
     (if ci_prefix ''redis_mode:'' s then
        (let name = takeWhile is_alpha (drop 11 s)
         in if name \<noteq> [] then Some name else None)
      else None)"

fun regex_search :: "(string \<Rightarrow> 'a option) \<Rightarrow> string \<Rightarrow> 'a option" where
  "regex_search rx [] = rx []"
| "regex_search rx (c # cs) =
     (case rx (c # cs) of Some cap \<Rightarrow> Some cap | None \<Rightarrow> regex_search rx cs)"

text \<open>
  \<^verbatim>\<open>^db(\d+):keys=(\d+).*\<close> with \<^verbatim>\<open>MultilineOption\<close>, matched globally. The anchor holds at
  the start of the text and after every line feed, and \<^verbatim>\<open>.*\<close> runs to the end of that
  line, so the matches are the lines (between line feeds) that begin with the pattern, in
  order. \<open>match_db_line\<close> returns the two captured digit strings.
\<close>

fun split_lf :: "string \<Rightarrow> string \<Rightarrow> string list" where
  "split_lf cur [] = [cur]"
| "split_lf cur (c # cs) = (if c = LF then cur # split_lf [] cs else split_lf (cur @ [c]) cs)"

definition match_db_line :: "string \<Rightarrow> (string \<times> string) option" where
  "match_db_line l =
     (if take 2 l = ''db'' then
        (let r = drop 2 l;
             idx = takeWhile is_digit r;
             r1 = dropWhile is_digit r;
             keys = takeWhile is_digit (drop 6 r1)
         in if idx \<noteq> [] \<and> take 6 r1 = '':keys='' \<and> keys \<noteq> [] then Some (idx, keys)
            else None)
      else None)"

definition globalMatch :: "string \<Rightarrow> (string \<times> string) list" where
  "globalMatch info = List.map_filter match_db_line (split_lf [] info)"

text \<open>
  The keyspace entries the text reports, as the \<^verbatim>\<open>while (iter.hasNext())\<close> loop reads them:
  \<^verbatim>\<open>captured(1).toInt()\<close> and \<^verbatim>\<open>captured(2).toInt()\<close> of every match.
\<close>

definition reported :: "string \<Rightarrow> (int \<times> int) list" where
  "reported info = map (\<lambda>(idx, keys). (toInt idx, toInt keys)) (globalMatch info)"

text \<open>The closing \<^verbatim>\<open>for\<close> loop of \<^verbatim>\<open>fromString\<close>, which fills the gaps below the last key.\<close>

definition fill_gaps :: "DatabaseList \<Rightarrow> DatabaseList" where
  "fill_gaps dbs =
     (let lastKnownDbIndex = qmap_lastKey dbs
      in foldl (\<lambda>m dbIndex. if \<not> qmap_contains m dbIndex then qmap_insert dbIndex 0 m else m)
           dbs [0 .. lastKnownDbIndex - 1])"

text \<open>\<^verbatim>\<open>ServerInfo::fromString\<close>\<close>

definition fromString :: "string \<Rightarrow> ServerInfo" where
  "fromString info =
     (let lines = split_crlf [] info;
          result0 = ServerInfo_new
            \<lparr>parsed := fst (foldl parse_line (Map.empty, ''unknown'') lines),
             version := regex_search versionRegex info\<rparr>;
          result1 =
            (case regex_search modeRegex info of
               None \<Rightarrow> result0
             | Some cap1 \<Rightarrow>
                 (let r = (if cap1 = ''cluster'' then result0\<lparr>clusterMode := True\<rparr>
                           else result0)
                  in if cap1 = ''sentinel'' then r\<lparr>sentinelMode := True\<rparr> else r))
      in if clusterMode result1 then result1\<lparr>databases := qmap_insert 0 0 (databases result1)\<rparr>
         else if sentinelMode result1 then result1
         else
           (let result2 = result1
                  \<lparr>databases := foldl (\<lambda>m (dbIndex, keys). qmap_insert dbIndex keys m)
                                  (databases result1) (reported info)\<rparr>
            in if length (databases result2) = 0 then result2
               else result2\<lparr>databases := fill_gaps (databases result2)\<rparr>))"

text \<open>
  The keyspace entries as the specification words them, without reference to
  \<^verbatim>\<open>QString::toInt\<close>: \<open>globalMatch\<close> gives the keyspace lines of the text with the digits of
  the index and of the key count, and \<open>int_reading\<close> reads a string of digits as a 32-bit
  \<^verbatim>\<open>int\<close>. The reading is the decimal value of the digits when that is at most 2147483647,
  and 0 when it is larger.
\<close>

definition int_reading :: "string \<Rightarrow> int" where
  "int_reading ds = (if digits_value ds \<le> 2147483647 then int (digits_value ds) else 0)"

definition observed :: "string \<Rightarrow> (int \<times> int) list" where
  "observed info = map (\<lambda>(idx, keys). (int_reading idx, int_reading keys)) (globalMatch info)"

text \<open>
  The keyspace map as the specification words it for a server that is neither a cluster
  nor a sentinel: every index from 0 up to the largest observed one, with the count that
  was observed last for the index, and 0 where none was.
\<close>

definition spec_dense :: "(int \<times> int) list \<Rightarrow> DatabaseList" where
  "spec_dense obs =
     (if obs = [] then []
      else map (\<lambda>i. (i, case map_of (rev obs) i of None \<Rightarrow> 0 | Some n \<Rightarrow> n))
             [0 .. Max (set (map fst obs))])"

section \<open>Values and replies\<close>

text \<open>
  A \<^verbatim>\<open>QVariant\<close>, with the alternatives that replies carry. The conversions are Qt's: a
  list has no text, a value that is no list converts to the empty list, and only a
  \<^verbatim>\<open>QString\<close> converts to a one-element string list.
\<close>

datatype QVariant =
    Invalid
  | ByteArray string
  | String string
  | LongLong int
  | List "QVariant list"

fun toString :: "QVariant \<Rightarrow> string" where
  "toString Invalid = []"
| "toString (ByteArray s) = s"
| "toString (String s) = s"
| "toString (LongLong n) = number n"
| "toString (List xs) = []"

fun toByteArray :: "QVariant \<Rightarrow> string" where
  "toByteArray Invalid = []"
| "toByteArray (ByteArray s) = s"
| "toByteArray (String s) = s"
| "toByteArray (LongLong n) = number n"
| "toByteArray (List xs) = []"

fun toList :: "QVariant \<Rightarrow> QVariant list" where
  "toList (List xs) = xs"
| "toList v = []"

fun toStringList :: "QVariant \<Rightarrow> string list" where
  "toStringList (List xs) = map toString xs"
| "toStringList (String s) = [s]"
| "toStringList v = []"

text \<open>\<^verbatim>\<open>QVariant::toInt\<close>; a 64-bit number is cut to its low 32 bits.\<close>

fun variant_toInt :: "QVariant \<Rightarrow> int" where
  "variant_toInt (LongLong n) = (n + 2147483648) mod 4294967296 - 2147483648"
| "variant_toInt (ByteArray s) = toInt s"
| "variant_toInt (String s) = toInt s"
| "variant_toInt v = 0"

text \<open>
  \<^verbatim>\<open>convertQVariantList\<close> (\<^verbatim>\<open>utils/compat.h\<close>, absent): the byte strings of a variant list.
\<close>

definition convertQVariantList :: "QVariant list \<Rightarrow> string list" where
  "convertQVariantList xs = map toByteArray xs"

text \<open>
  The class \<^verbatim>\<open>Response\<close> is declared in a header that is not part of the sources. A reply
  is modelled by what its accessors return to \<^verbatim>\<open>connection.cpp\<close>; nothing is assumed
  about how the accessors relate to each other. The accessor \<^verbatim>\<open>value()\<close> is the field
  \<open>value'\<close>.
\<close>

record Response =
  value' :: QVariant
  isErrorMessage :: bool
  isDisabledCommandErrorMessage :: bool
  isArray :: bool
  isValidScanResponse :: bool
  getCursor :: int
  getCollection :: "QVariant list"

definition END_OF_COLLECTION :: string where
  "END_OF_COLLECTION = ''end_of_collection''"

section \<open>Commands and callbacks\<close>

text \<open>
  What a \<^verbatim>\<open>Command\<close> or \<^verbatim>\<open>ScanCommand\<close> holds besides its owner and its callback.
\<close>

record RawCommand =
  args :: "string list"
  db :: int
  hiPriority :: bool

text \<open>
  Modelled from the spec: the default of the \<^verbatim>\<open>db\<close> parameter of the \<^verbatim>\<open>Command\<close>
  constructors and of \<^verbatim>\<open>Connection::command\<close>, which \<^verbatim>\<open>command.h\<close> and \<^verbatim>\<open>connection.h\<close>
  (absent) declare; the target database index -1 means that no \<^verbatim>\<open>SELECT\<close> is issued.
\<close>

definition default_db :: int where
  "default_db = - 1"

text \<open>
  Modelled from the spec: \<^verbatim>\<open>Command::isValid\<close> (\<^verbatim>\<open>command.cpp\<close> is absent); the argument
  list of a command is not empty.
\<close>

definition isValid :: "'a RawCommand_scheme \<Rightarrow> bool" where
  "isValid cmd = (args cmd \<noteq> [])"

text \<open>
  Modelled from the spec: \<^verbatim>\<open>Command::getPartAsString(i)\<close> (\<^verbatim>\<open>command.cpp\<close> is absent); a
  command is an ordered list of arguments whose first one is the command name, and part
  \<open>i\<close> is argument \<open>i\<close>. The model gives the empty string where the command has no such
  part; the commands of a scan chain have passed \<open>isValid\<close>, so their part 0 exists.
\<close>

definition getPartAsString :: "'a RawCommand_scheme \<Rightarrow> nat \<Rightarrow> string" where
  "getPartAsString cmd i = (if i < length (args cmd) then args cmd ! i else [])"

text \<open>
  Modelled from the spec: \<^verbatim>\<open>ScanCommand::isValidScanCommand\<close> and \<^verbatim>\<open>ScanCommand::setCursor\<close>
  (\<^verbatim>\<open>scancommand.cpp\<close> is absent). The first argument is one of SCAN, HSCAN, SSCAN, ZSCAN
  and ISCAN, and the cursor stands at argument 1 for SCAN and ISCAN and at argument 2 for the
  others. \<open>setCursor\<close> rewrites the argument at that place and leaves a command without
  such an argument as it is.
\<close>

definition cursor_index :: "RawCommand \<Rightarrow> nat" where
  "cursor_index cmd =
     (if toLower (getPartAsString cmd 0) \<in> set [''scan'', ''iscan''] then 1 else 2)"

definition isValidScanCommand :: "RawCommand \<Rightarrow> bool" where
  "isValidScanCommand cmd =
     (toLower (getPartAsString cmd 0) \<in> set [''scan'', ''hscan'', ''sscan'', ''zscan'', ''iscan'']
      \<and> cursor_index cmd < length (args cmd))"

definition setCursor :: "RawCommand \<Rightarrow> int \<Rightarrow> RawCommand" where
  "setCursor cmd cursor =
     (if cursor_index cmd < length (args cmd)
      then cmd\<lparr>args := (args cmd)[cursor_index cmd := number cursor]\<rparr>
      else cmd)"

text \<open>
  The callbacks. A callback that the caller of the library supplies is opaque: it is
  named by a number, and calling it is recorded as an event. Every lambda of
  \<^verbatim>\<open>connection.cpp\<close> is a constructor that holds what the lambda captures.

  \<^item> \<open>RawKeysListCallback\<close>: the empty \<^verbatim>\<open>std::function\<close>, a caller's callback, or the lambda
    that \<^verbatim>\<open>getClusterKeys\<close> stores in \<^verbatim>\<open>m_collectClusterNodeKeys\<close>. The lambda captures
    \<open>result\<close>, a shared pointer (here the address of the list in the model's \<open>heap\<close>),
    the caller's \<open>callback\<close>, and \<open>onConnect\<close>, which in turn captures \<open>callback\<close>,
    \<open>pattern\<close> and \<open>result\<close>.
  \<^item> \<open>CollectionCallback\<close>: a caller's callback, the adapter of
    \<^verbatim>\<open>retrieveCollectionIncrementally\<close> around the caller's incremental callback, or the
    lambda of \<^verbatim>\<open>getDatabaseKeys\<close>.
  \<^item> \<open>Callback\<close> (\<^verbatim>\<open>Command::Callback\<close>): none, a caller's, the lambda of
    \<^verbatim>\<open>processScanCommand\<close> (capturing \<open>cmd\<close>, \<open>result\<close>, \<open>callback\<close> and
    \<open>incrementalProcessing\<close>), or one of the two lambdas of \<^verbatim>\<open>flushDbKeys\<close> (capturing
    \<open>dbIndex\<close> and the caller's \<open>callback\<close>).

  The \<open>result\<close> list of a scan chain is a shared pointer too, but it is reachable from the
  pending command of the chain only, so the lambda holds the list itself. The command a
  \<^verbatim>\<open>processScanCommand\<close> lambda captures is kept as a \<open>RawCommand\<close>: its owner and callback
  are replaced by \<^verbatim>\<open>setCallBack\<close> before the command is run again.
\<close>

datatype RawKeysListCallback =
    EmptyKeysCallback
  | UserKeysCallback nat
  | collectClusterNodeKeys_lambda nat nat string

datatype CollectionCallback =
    UserCollectionCallback nat
  | retrieveCollectionIncrementally_lambda nat
  | getDatabaseKeys_lambda RawKeysListCallback

datatype Callback =
    NoCallback
  | UserCallback nat
  | processScanCommand_lambda RawCommand "QVariant list" CollectionCallback bool
  | flushDbKeys_cluster_lambda int nat
  | flushDbKeys_lambda int nat

datatype Owner = This | Object nat

record Command = RawCommand +
  owner :: "Owner option"
  callback :: Callback

text \<open>
  A future is the future of a command's own promise, or the future of a deferred object
  that \<^verbatim>\<open>runCommand\<close> created (named by its number). A deferred object is pending, is
  cancelled, or follows another future (\<^verbatim>\<open>d->complete(future)\<close>): it then finishes as that
  future does.
\<close>

datatype Future = future_of Command | deferred_future nat

datatype Deferred = Pending | Cancelled | Following Future

text \<open>
  The callbacks given to \<^verbatim>\<open>callAfterConnect\<close>: the lambda of \<^verbatim>\<open>runCommand\<close> (capturing
  \<open>cmd\<close> and the deferred object \<open>d\<close>), \<open>onConnect\<close> of \<^verbatim>\<open>getClusterKeys\<close> (capturing
  \<open>callback\<close>, \<open>pattern\<close> and \<open>result\<close>) and \<open>onConnect\<close> of \<^verbatim>\<open>flushDbKeys\<close> (capturing
  \<open>callback\<close>).
\<close>

datatype ConnectCallback =
    runCommand_lambda Command nat
  | getClusterKeys_onConnect nat string nat
  | flushDbKeys_onConnect nat

section \<open>The connection\<close>

text \<open>
  \<^verbatim>\<open>ConnectionConfig\<close> is declared elsewhere; the record holds what its accessors return
  (\<open>authPassword\<close> is \<^verbatim>\<open>auth()\<close>, \<open>isValid_config\<close> is \<^verbatim>\<open>isValid()\<close>).
\<close>

record ConnectionConfig =
  host :: string
  port :: int
  useAuth :: bool
  authPassword :: string
  useSshTunnel :: bool
  overrideClusterHost :: bool
  isValid_config :: bool

datatype Mode = Normal | Cluster | Sentinel

datatype Transporter = DefaultTransporter | SshTransporter

type_synonym Host = "string \<times> int"

text \<open>
  What the connection emits and which callbacks of its callers it invokes, in order:
  its Qt signals, and one event for every call of a caller's callback.
\<close>

datatype Event =
    Sig_log string
  | Sig_authOk
  | Sig_connected
  | Sig_authError string
  | Sig_error string
  | Sig_shutdownStart
  | Sig_reconnectTo string int
  | Sig_addCommandToWorker Command
  | Call_Callback nat Response string
  | Call_CollectionCallback nat QVariant string
  | Call_IncrementalCollectionCallback nat QVariant string bool
  | Call_RawKeysListCallback nat "string list" string
  | Call_flushCallback nat string

text \<open>
  The state. The fields named \<open>m_\<dots>\<close> are the members of \<^verbatim>\<open>Connection\<close>;
  \<open>m_transporterThread\<close> is \<open>None\<close> for the null pointer and otherwise tells whether the
  thread is running. \<open>SSH_SUPPORT\<close> is the compile-time switch; \<open>dbIndex_default\<close> and
  \<open>scanLimit_default\<close> are the defaults that \<^verbatim>\<open>connection.h\<close> (absent) declares for the
  last two parameters of \<^verbatim>\<open>getDatabaseKeys\<close>, which the model leaves open. The other fields
  are the surroundings that the code acts on:
  \<^item> \<open>contexts\<close>: the callbacks registered by \<^verbatim>\<open>callAfterConnect\<close> whose context object is
    alive, oldest first;
  \<^item> \<open>worker\<close>: the commands handed to the transporter by \<^verbatim>\<open>addCommandToWorker\<close> that it has
    not answered yet, oldest first;
  \<^item> \<open>deferreds\<close>, \<open>next_deferred\<close>: the deferred objects created by \<^verbatim>\<open>runCommand\<close>;
  \<^item> \<open>heap\<close>, \<open>next_addr\<close>: the key lists allocated by \<^verbatim>\<open>getClusterKeys\<close>;
  \<^item> \<open>cancel_on_destroy\<close>: the owners whose \<^verbatim>\<open>destroyed\<close> signal is connected to the
    transporter's \<^verbatim>\<open>cancelCommands\<close>;
  \<^item> \<open>authError_connections\<close>: the number of connections of the signal \<^verbatim>\<open>authError\<close> to
    the lambda that calls \<^verbatim>\<open>disconnect\<close>. \<^verbatim>\<open>connect\<close> makes one at every call; sender and
    receiver are the connection itself, so none of them goes away;
  \<^item> \<open>emitted\<close>: the events so far.
\<close>

record Connection =
  m_config :: ConnectionConfig
  m_dbNumber :: int
  m_currentMode :: Mode
  m_autoConnect :: bool
  m_stoppingTransporter :: bool
  m_transporter :: "Transporter option"
  m_transporterThread :: "bool option"
  m_serverInfo :: ServerInfo
  m_notVisitedMasterNodes :: "Host list option"
  m_collectClusterNodeKeys :: RawKeysListCallback
  m_cmdCallback :: Callback
  SSH_SUPPORT :: bool
  dbIndex_default :: int
  scanLimit_default :: int
  contexts :: "ConnectCallback list"
  worker :: "Command list"
  deferreds :: "nat \<Rightarrow> Deferred"
  next_deferred :: nat
  heap :: "nat \<Rightarrow> string list"
  next_addr :: nat
  cancel_on_destroy :: "nat list"
  authError_connections :: nat
  emitted :: "Event list"

text \<open>The constructor \<^verbatim>\<open>Connection(c, autoConnect)\<close>.\<close>

definition Connection_new ::
  "ConnectionConfig \<Rightarrow> bool \<Rightarrow> bool \<Rightarrow> int \<Rightarrow> int \<Rightarrow> Connection" where
  "Connection_new c autoConnect ssh dbIndex scanLimit =
     \<lparr>m_config = c, m_dbNumber = 0, m_currentMode = Normal, m_autoConnect = autoConnect,
      m_stoppingTransporter = False, m_transporter = None, m_transporterThread = None,
      m_serverInfo = ServerInfo_new, m_notVisitedMasterNodes = None,
      m_collectClusterNodeKeys = EmptyKeysCallback, m_cmdCallback = NoCallback,
      SSH_SUPPORT = ssh, dbIndex_default = dbIndex, scanLimit_default = scanLimit,
      contexts = [], worker = [], deferreds = (\<lambda>d. Pending),
      next_deferred = 0, heap = (\<lambda>a. []), next_addr = 0, cancel_on_destroy = [],
      authError_connections = 0, emitted = []\<rparr>"

text \<open>
  How a call ends other than by returning: with a \<^verbatim>\<open>Connection::Exception\<close>, with its
  subclass \<^verbatim>\<open>SSHSupportException\<close>, with \<^verbatim>\<open>std::bad_function_call\<close> (an empty
  \<^verbatim>\<open>std::function\<close> was called), by reading a \<^verbatim>\<open>QList\<close> out of range, or not at all:
  \<open>NoReturn\<close> stands for a thread that waits for a future which only an event delivered
  to that same thread could finish.
\<close>

datatype Failure =
    Exception string
  | SSHSupportException string
  | bad_function_call
  | OutOfRange
  | NoReturn

text \<open>
  A call returns a value and the state it leaves, or fails and leaves a state; \<open>Inl\<close> is
  the failure.
\<close>

type_synonym 'a result = "(Failure \<times> Connection) + ('a \<times> Connection)"

definition and_then :: "'a result \<Rightarrow> ('a \<Rightarrow> Connection \<Rightarrow> 'b result) \<Rightarrow> 'b result" where
  "and_then m f = (case m of Inl e \<Rightarrow> Inl e | Inr (x, st) \<Rightarrow> f x st)"

definition state_of :: "'a result \<Rightarrow> Connection" where
  "state_of m = (case m of Inl (e, st) \<Rightarrow> st | Inr (x, st) \<Rightarrow> st)"

text \<open>\<^verbatim>\<open>catch (const Exception &e)\<close> catches the class and its subclass; \<open>what\<close> is the text.\<close>

fun caught :: "Failure \<Rightarrow> string option" where
  "caught (Exception what) = Some what"
| "caught (SSHSupportException what) = Some what"
| "caught f = None"

definition emit :: "Event \<Rightarrow> Connection \<Rightarrow> Connection" where
  "emit e st = st\<lparr>emitted := emitted st @ [e]\<rparr>"

definition isTransporterRunning :: "Connection \<Rightarrow> bool" where
  "isTransporterRunning st = (m_transporter st \<noteq> None \<and> m_transporterThread st = Some True)"

definition isConnected :: "Connection \<Rightarrow> bool" where
  "isConnected st = (m_stoppingTransporter st = False \<and> isTransporterRunning st)"

text \<open>
  \<^verbatim>\<open>disconnect\<close>. The transporter and its thread are released, and with the transporter
  the commands it still held.
\<close>

definition disconnect :: "Connection \<Rightarrow> Connection" where
  "disconnect st =
     (let st1 = emit Sig_shutdownStart st;
          st2 = (if isTransporterRunning st1
                 then st1\<lparr>m_transporter := None, m_transporterThread := None,
                          m_stoppingTransporter := False, worker := []\<rparr>
                 else st1)
      in st2\<lparr>m_dbNumber := 0\<rparr>)"

definition createTransporter :: "Connection \<Rightarrow> unit result" where
  "createTransporter st =
     (if useSshTunnel (m_config st) then
        (if SSH_SUPPORT st then Inr ((), st\<lparr>m_transporter := Some SshTransporter\<rparr>)
         else Inl (SSHSupportException ''QRedisClient compiled without ssh support.'', st))
      else Inr ((), st\<lparr>m_transporter := Some DefaultTransporter\<rparr>))"

text \<open>
  \<^verbatim>\<open>connect(wait)\<close>. Of the signal connections it makes, those whose sender is the
  transporter live as long as that transporter: its \<^verbatim>\<open>connected\<close> runs \<open>auth\<close> and its
  \<^verbatim>\<open>errorOccurred\<close> runs \<open>transporter_errorOccurred\<close>. The connection of \<^verbatim>\<open>authError\<close> to
  the lambda that calls \<^verbatim>\<open>disconnect\<close> is counted in \<open>authError_connections\<close>. The thread is
  started in both branches. \<open>waiter\<close> stands for \<^verbatim>\<open>SignalWaiter::wait()\<close>
  (\<^verbatim>\<open>utils/sync.h\<close>, absent), which handles events until a signal or the timeout ends it.
\<close>

definition connect ::
  "bool \<Rightarrow> (Connection \<Rightarrow> bool \<times> Connection) \<Rightarrow> Connection \<Rightarrow> bool result" where
  "connect wait waiter st =
     (if isConnected st then Inr (True, st)
      else if isValid_config (m_config st) = False
      then Inl (Exception ''Invalid config detected'', st)
      else and_then (if m_transporter st = None then createTransporter st else Inr ((), st))
        (\<lambda>_ st1.
           (let st2 = st1\<lparr>m_transporterThread := Some True,
                          authError_connections := Suc (authError_connections st1)\<rparr>
            in if wait then Inr (waiter st2) else Inr (True, st2))))"

definition callAfterConnect :: "ConnectCallback \<Rightarrow> Connection \<Rightarrow> Connection" where
  "callAfterConnect cb st = st\<lparr>contexts := contexts st @ [cb]\<rparr>"

text \<open>
  The two steps of \<^verbatim>\<open>runCommand\<close> on a connection that is up: the \<^verbatim>\<open>destroyed\<close> signal of
  an owner other than the connection is connected to the transporter's \<^verbatim>\<open>cancelCommands\<close>
  (a \<^verbatim>\<open>Qt::UniqueConnection\<close>, so once per owner), and the signal \<^verbatim>\<open>addCommandToWorker\<close>
  hands the command to the worker.
\<close>

definition cancel_when_destroyed :: "Command \<Rightarrow> Connection \<Rightarrow> Connection" where
  "cancel_when_destroyed cmd st =
     (case owner cmd of
        Some (Object ob) \<Rightarrow> st\<lparr>cancel_on_destroy := List.insert ob (cancel_on_destroy st)\<rparr>
      | _ \<Rightarrow> st)"

definition addCommandToWorker :: "Command \<Rightarrow> Connection \<Rightarrow> Connection" where
  "addCommandToWorker cmd st =
     (emit (Sig_addCommandToWorker cmd) st)\<lparr>worker := worker st @ [cmd]\<rparr>"

text \<open>
  \<^verbatim>\<open>runCommand\<close>. In the branch that connects first, \<open>d\<close> is the new deferred object; the
  call of \<^verbatim>\<open>connect(false)\<close> does not wait.
\<close>

definition runCommand :: "Command \<Rightarrow> Connection \<Rightarrow> Future result" where
  "runCommand cmd st =
     (if \<not> isValid cmd then Inl (Exception ''Command is not valid'', st)
      else if \<not> isConnected st then
        (if m_autoConnect st then
           (let d = next_deferred st;
                st1 = st\<lparr>deferreds := (deferreds st)(d := Pending), next_deferred := Suc d\<rparr>;
                st2 = callAfterConnect (runCommand_lambda cmd d) st1
            in and_then (connect False (\<lambda>s. (True, s)) st2)
                 (\<lambda>_ st3. Inr (deferred_future d, st3)))
         else Inl (Exception ''Try run command in not connected state'', st))
      else Inr (future_of cmd, addCommandToWorker cmd (cancel_when_destroyed cmd st)))"

text \<open>
  The three overloads of \<^verbatim>\<open>command\<close> wrap an exception of \<^verbatim>\<open>runCommand\<close>; this is the
  one that takes \<open>rawCmd\<close>, \<open>owner\<close>, \<open>callback\<close> and \<open>db\<close>.
\<close>

definition command ::
  "string list \<Rightarrow> Owner option \<Rightarrow> Callback \<Rightarrow> int \<Rightarrow> Connection \<Rightarrow> Future result" where
  "command rawCmd ownr cb dbi st =
     (let cmd = \<lparr>args = rawCmd, db = dbi, hiPriority = False, owner = ownr, callback = cb\<rparr>
      in case runCommand cmd st of
           Inl (e, st1) \<Rightarrow>
             (case caught e of
                Some what \<Rightarrow> Inl (Exception (''Cannot execute command.'' @ what), st1)
              | None \<Rightarrow> Inl (e, st1))
         | Inr r \<Rightarrow> Inr r)"

text \<open>
  \<^verbatim>\<open>commandSync\<close> waits for the future of \<^verbatim>\<open>runCommand\<close>. When the command went to the
  worker, the reply is the one the server gives to these arguments, \<open>srv (args command)\<close>
  (the empty \<^verbatim>\<open>Response\<close> when the command was cancelled), and the command is no longer
  pending. When \<^verbatim>\<open>runCommand\<close> deferred the command until the connection is up, the wait
  does not end.
\<close>

definition commandSync ::
  "(string list \<Rightarrow> Response) \<Rightarrow> Command \<Rightarrow> Connection \<Rightarrow> Response result" where
  "commandSync srv cmd st =
     and_then (runCommand cmd st)
       (\<lambda>future st1.
          (case future of
             deferred_future d \<Rightarrow> Inl (NoReturn, st1)
           | future_of c \<Rightarrow> Inr (srv (args cmd), st1\<lparr>worker := butlast (worker st1)\<rparr>)))"

text \<open>
  \<^verbatim>\<open>internalCommandSync\<close> builds \<^verbatim>\<open>Command cmd(rawCmd)\<close>, marks it as a high-priority command
  and runs it synchronously.
\<close>

definition internalCommand :: "string list \<Rightarrow> Command" where
  "internalCommand rawCmd =
     \<lparr>args = rawCmd, db = default_db, hiPriority = True, owner = None, callback = NoCallback\<rparr>"

definition internalCommandSync ::
  "(string list \<Rightarrow> Response) \<Rightarrow> string list \<Rightarrow> Connection \<Rightarrow> Response result" where
  "internalCommandSync srv rawCmd st = commandSync srv (internalCommand rawCmd) st"

text \<open>
  Modelled from the spec: the default of the parameter \<open>incrementalProcessing\<close> of
  \<^verbatim>\<open>processScanCommand\<close>, which \<^verbatim>\<open>connection.h\<close> (absent) declares. \<^verbatim>\<open>retrieveCollection\<close>
  passes no value for it and is the aggregate mode.
\<close>

definition incrementalProcessing_default :: bool where
  "incrementalProcessing_default = False"

text \<open>
  \<^verbatim>\<open>processScanCommand\<close>: \<open>result\<close> is \<open>None\<close> for the null pointer. \<open>cmdWithCallback\<close> is
  the copy of \<open>cmd\<close> after \<^verbatim>\<open>setCallBack(this, \<dots>)\<close>: its owner is the connection and its
  callback is the lambda.
\<close>

definition cmdWithCallback ::
  "RawCommand \<Rightarrow> QVariant list \<Rightarrow> CollectionCallback \<Rightarrow> bool \<Rightarrow> Command" where
  "cmdWithCallback cmd result cb incrementalProcessing =
     \<lparr>args = args cmd, db = db cmd, hiPriority = hiPriority cmd, owner = Some This,
      callback = processScanCommand_lambda cmd result cb incrementalProcessing\<rparr>"

definition processScanCommand ::
  "RawCommand \<Rightarrow> CollectionCallback \<Rightarrow> QVariant list option \<Rightarrow> bool \<Rightarrow> Connection \<Rightarrow> unit result"
  where
  "processScanCommand cmd cb result incrementalProcessing st =
     (let result1 = (case result of None \<Rightarrow> [] | Some xs \<Rightarrow> xs)
      in and_then (runCommand (cmdWithCallback cmd result1 cb incrementalProcessing) st)
           (\<lambda>_ st1. Inr ((), st1)))"

definition retrieveCollection ::
  "RawCommand \<Rightarrow> CollectionCallback \<Rightarrow> Connection \<Rightarrow> unit result" where
  "retrieveCollection cmd cb st =
     (if \<not> isValidScanCommand cmd then Inl (Exception ''Invalid command'', st)
      else processScanCommand cmd cb None incrementalProcessing_default st)"

definition retrieveCollectionIncrementally ::
  "RawCommand \<Rightarrow> nat \<Rightarrow> Connection \<Rightarrow> unit result" where
  "retrieveCollectionIncrementally cmd cb st =
     (if \<not> isValidScanCommand cmd then Inl (Exception ''Invalid command'', st)
      else processScanCommand cmd (retrieveCollectionIncrementally_lambda cb) None True st)"

definition getDatabaseKeys ::
  "RawKeysListCallback \<Rightarrow> string \<Rightarrow> int \<Rightarrow> int \<Rightarrow> Connection \<Rightarrow> unit result" where
  "getDatabaseKeys cb pattern dbIndex scanLimit st =
     (let rawCmd = [''scan'', ''0'', ''MATCH'', pattern, ''COUNT'', number scanLimit];
          keyCmd = \<lparr>args = rawCmd, db = dbIndex, hiPriority = False\<rparr>
      in retrieveCollection keyCmd (getDatabaseKeys_lambda cb) st)"

definition hasNotVisitedClusterNodes :: "Connection \<Rightarrow> bool" where
  "hasNotVisitedClusterNodes st =
     (case m_notVisitedMasterNodes st of None \<Rightarrow> False | Some nodes \<Rightarrow> length nodes > 0)"

definition clusterConnectToNextMasterNode :: "ConnectCallback \<Rightarrow> Connection \<Rightarrow> Connection" where
  "clusterConnectToNextMasterNode cb st =
     (if \<not> hasNotVisitedClusterNodes st then st
      else
        (case m_notVisitedMasterNodes st of
           Some (h # nodes) \<Rightarrow>
             (let st1 = st\<lparr>m_notVisitedMasterNodes := Some nodes\<rparr>;
                  st2 = callAfterConnect cb st1
              in if overrideClusterHost (m_config st2)
                 then emit (Sig_reconnectTo (fst h) (snd h)) st2
                 else emit (Sig_reconnectTo (host (m_config st2)) (snd h)) st2)
         | _ \<Rightarrow> st))"

text \<open>
  Calling a callback. The texts \<^verbatim>\<open>Cannot flush db (%1): %2\<close> and \<^verbatim>\<open>Cannot load keys: %1\<close> are
  filled with \<^verbatim>\<open>QString::arg\<close>. In the first, \<^verbatim>\<open>%1\<close> receives a number, which has no place
  marker, and then \<^verbatim>\<open>%2\<close> receives the error text; in the second there is one marker. The
  result is the text with the parts in the places of the markers, which the model writes
  as a concatenation.
\<close>

definition call_RawKeysListCallback ::
  "RawKeysListCallback \<Rightarrow> string list \<Rightarrow> string \<Rightarrow> Connection \<Rightarrow> unit result" where
  "call_RawKeysListCallback f res err st =
     (case f of
        EmptyKeysCallback \<Rightarrow> Inl (bad_function_call, st)
      | UserKeysCallback u \<Rightarrow> Inr ((), emit (Call_RawKeysListCallback u res err) st)
      | collectClusterNodeKeys_lambda result cb pattern \<Rightarrow>
          (if err \<noteq> [] then Inr ((), emit (Call_RawKeysListCallback cb [] err) st)
           else
             (let st1 = st\<lparr>heap := (heap st)(result := heap st result @ res)\<rparr>
              in if \<not> hasNotVisitedClusterNodes st1
                 then Inr ((), emit (Call_RawKeysListCallback cb (heap st1 result) []) st1)
                 else Inr ((), clusterConnectToNextMasterNode
                                 (getClusterKeys_onConnect cb pattern result) st1))))"

definition call_CollectionCallback ::
  "CollectionCallback \<Rightarrow> QVariant \<Rightarrow> string \<Rightarrow> Connection \<Rightarrow> unit result" where
  "call_CollectionCallback f c err st =
     (case f of
        UserCollectionCallback u \<Rightarrow> Inr ((), emit (Call_CollectionCallback u c err) st)
      | retrieveCollectionIncrementally_lambda u \<Rightarrow>
          (if err = END_OF_COLLECTION
           then Inr ((), emit (Call_IncrementalCollectionCallback u c [] True) st)
           else if err \<noteq> []
           then Inr ((), emit (Call_IncrementalCollectionCallback u c err True) st)
           else Inr ((), emit (Call_IncrementalCollectionCallback u c [] False) st))
      | getDatabaseKeys_lambda cb \<Rightarrow>
          (if err \<noteq> [] then call_RawKeysListCallback cb [] (''Cannot load keys: '' @ err) st
           else call_RawKeysListCallback cb (convertQVariantList (toList c)) [] st))"

text \<open>The lambda that \<^verbatim>\<open>processScanCommand\<close> sets as the callback of the command.\<close>

definition scan_callback ::
  "RawCommand \<Rightarrow> QVariant list \<Rightarrow> CollectionCallback \<Rightarrow> bool \<Rightarrow> Response \<Rightarrow> string \<Rightarrow>
   Connection \<Rightarrow> unit result" where
  "scan_callback cmd result cb incrementalProcessing r error st =
     (if isErrorMessage r then
        (if toLower (getPartAsString cmd 0) = ''scan'' \<and> isDisabledCommandErrorMessage r then
           (let rawCmd = (args cmd)[0 := ''iscan''];
                iscanCmd = \<lparr>args = rawCmd, db = default_db, hiPriority = False\<rparr>
            in processScanCommand iscanCmd cb (Some result) incrementalProcessing st)
         else call_CollectionCallback cb (value' r) (toString (value' r)) st)
      else if error \<noteq> [] then call_CollectionCallback cb Invalid error st
      else
        (let result1 = (if incrementalProcessing then [] else result)
         in if \<not> isValidScanResponse r then
              (if result1 = []
               then call_CollectionCallback cb Invalid
                      (if incrementalProcessing then END_OF_COLLECTION else []) st
               else call_CollectionCallback cb (List result1) [] st)
            else
              (let result2 = result1 @ getCollection r
               in if getCursor r \<le> 0
                  then call_CollectionCallback cb (List result2)
                         (if incrementalProcessing then END_OF_COLLECTION else []) st
                  else processScanCommand (setCursor cmd (getCursor r)) cb (Some result2)
                         incrementalProcessing_default st)))"

definition call_Callback :: "Callback \<Rightarrow> Response \<Rightarrow> string \<Rightarrow> Connection \<Rightarrow> unit result" where
  "call_Callback f r error st =
     (case f of
        NoCallback \<Rightarrow> Inr ((), st)
      | UserCallback u \<Rightarrow> Inr ((), emit (Call_Callback u r error) st)
      | processScanCommand_lambda cmd result cb incrementalProcessing \<Rightarrow>
          scan_callback cmd result cb incrementalProcessing r error st
      | flushDbKeys_cluster_lambda dbIndex cb \<Rightarrow>
          (if error \<noteq> []
           then Inr ((), emit (Call_flushCallback cb
                                (''Cannot flush db ('' @ number dbIndex @ ''): '' @ error)) st)
           else if \<not> hasNotVisitedClusterNodes st
           then Inr ((), emit (Call_flushCallback cb []) st)
           else Inr ((), clusterConnectToNextMasterNode (flushDbKeys_onConnect cb) st))
      | flushDbKeys_lambda dbIndex cb \<Rightarrow>
          (if error \<noteq> []
           then Inr ((), emit (Call_flushCallback cb
                                (''Cannot flush db ('' @ number dbIndex @ ''): '' @ error)) st)
           else Inr ((), emit (Call_flushCallback cb []) st)))"

text \<open>
  The text that both \<open>onConnect\<close> lambdas build:
  \<^verbatim>\<open>tr("Cannot connect to cluster node %1:%2").arg(m_config.host()).arg(m_config.port())\<close>.
  The host is filled in first; a place marker in the host name takes part in the second
  step.
\<close>

definition cannot_connect_to_node :: "Connection \<Rightarrow> string" where
  "cannot_connect_to_node st =
     arg (arg ''Cannot connect to cluster node %1:%2'' (host (m_config st)))
       (number (port (m_config st)))"

definition call_ConnectCallback :: "ConnectCallback \<Rightarrow> string \<Rightarrow> Connection \<Rightarrow> unit result" where
  "call_ConnectCallback f err st =
     (case f of
        runCommand_lambda cmd d \<Rightarrow>
          (if err = [] then
             and_then (runCommand cmd st)
               (\<lambda>future st1. Inr ((), st1\<lparr>deferreds := (deferreds st1)(d := Following future)\<rparr>))
           else Inr ((), st\<lparr>deferreds := (deferreds st)(d := Cancelled)\<rparr>))
      | getClusterKeys_onConnect cb pattern result \<Rightarrow>
          (if err \<noteq> []
           then Inr ((), emit (Call_RawKeysListCallback cb (heap st result)
                                (cannot_connect_to_node st)) st)
           else getDatabaseKeys (m_collectClusterNodeKeys st) pattern
                  (dbIndex_default st) (scanLimit_default st) st)
      | flushDbKeys_onConnect cb \<Rightarrow>
          (if err \<noteq> []
           then Inr ((), emit (Call_flushCallback cb (cannot_connect_to_node st)) st)
           else and_then (command [''FLUSHDB''] (Some This) (m_cmdCallback st) default_db st)
                  (\<lambda>_ st1. Inr ((), st1))))"

text \<open>
  Emitting \<^verbatim>\<open>authOk\<close> or \<^verbatim>\<open>error\<close> calls what \<^verbatim>\<open>callAfterConnect\<close> registered, in the order of
  registration. Every such callback ends with \<^verbatim>\<open>context->deleteLater()\<close>, which removes the
  registration: the callbacks are taken off before they run, and what they register
  themselves waits for the next signal.
\<close>

fun call_contexts :: "ConnectCallback list \<Rightarrow> string \<Rightarrow> Connection \<Rightarrow> unit result" where
  "call_contexts [] err st = Inr ((), st)"
| "call_contexts (f # fs) err st =
     and_then (call_ConnectCallback f err st) (\<lambda>_ st1. call_contexts fs err st1)"

definition emit_authOk :: "Connection \<Rightarrow> unit result" where
  "emit_authOk st = call_contexts (contexts st) [] (emit Sig_authOk (st\<lparr>contexts := []\<rparr>))"

definition emit_error :: "string \<Rightarrow> Connection \<Rightarrow> unit result" where
  "emit_error err st = call_contexts (contexts st) err (emit (Sig_error err) (st\<lparr>contexts := []\<rparr>))"

text \<open>
  Emitting \<^verbatim>\<open>authError\<close> runs \<^verbatim>\<open>disconnect\<close> once for every connection that \<^verbatim>\<open>connect\<close> has
  made of this signal.
\<close>

definition emit_authError :: "string \<Rightarrow> Connection \<Rightarrow> Connection" where
  "emit_authError err st = (disconnect ^^ authError_connections st) (emit (Sig_authError err) st)"

text \<open>The lambda that \<^verbatim>\<open>connect\<close> connects to the transporter's \<^verbatim>\<open>errorOccurred\<close>.\<close>

definition transporter_errorOccurred :: "string \<Rightarrow> Connection \<Rightarrow> unit result" where
  "transporter_errorOccurred err st = emit_error (''Disconnect on error: '' @ err) (disconnect st)"

text \<open>
  The loop of \<^verbatim>\<open>getMasterNodes\<close> over the slots; \<open>None\<close> when \<open>masterDetails\<close> is read out of
  range.
\<close>

fun master_nodes :: "QVariant list \<Rightarrow> Host list option" where
  "master_nodes [] = Some []"
| "master_nodes (clusterSlot # slotsList) =
     (let details = toList clusterSlot
      in if length details < 3 then master_nodes slotsList
         else
           (let masterDetails = toList (details ! 2)
            in if length masterDetails < 2 then None
               else map_option
                      (\<lambda>hosts. (toString (masterDetails ! 0), variant_toInt (masterDetails ! 1)) # hosts)
                      (master_nodes slotsList)))"

definition getMasterNodes :: "(string list \<Rightarrow> Response) \<Rightarrow> Connection \<Rightarrow> Host list result" where
  "getMasterNodes srv st =
     (if m_currentMode st \<noteq> Cluster then Inr ([], st)
      else
        (case internalCommandSync srv [''CLUSTER'', ''SLOTS''] st of
           Inl (e, st1) \<Rightarrow>
             (case caught e of
                Some what \<Rightarrow>
                  and_then (emit_error ''Cannot retrive nodes list'' st1) (\<lambda>_ st2. Inr ([], st2))
              | None \<Rightarrow> Inl (e, st1))
         | Inr (r, st1) \<Rightarrow>
             (case master_nodes (toList (value' r)) of
                None \<Rightarrow> Inl (OutOfRange, st1)
              | Some hosts \<Rightarrow> Inr (hosts, st1))))"

definition getClusterKeys ::
  "(string list \<Rightarrow> Response) \<Rightarrow> nat \<Rightarrow> string \<Rightarrow> Connection \<Rightarrow> unit result" where
  "getClusterKeys srv cb pattern st =
     (if m_currentMode st \<noteq> Cluster
      then Inl (Exception ''Connection is not in cluster mode'', st)
      else
        (let result = next_addr st;
             st1 = st\<lparr>heap := (heap st)(result := []), next_addr := Suc result\<rparr>
         in and_then (getMasterNodes srv st1)
              (\<lambda>nodes st2.
                 (let st3 = st2\<lparr>m_notVisitedMasterNodes := Some nodes\<rparr>;
                      onConnect = getClusterKeys_onConnect cb pattern result;
                      st4 = st3\<lparr>m_collectClusterNodeKeys :=
                                   collectClusterNodeKeys_lambda result cb pattern\<rparr>
                  in Inr ((), clusterConnectToNextMasterNode onConnect st4)))))"

definition flushDbKeys ::
  "(string list \<Rightarrow> Response) \<Rightarrow> int \<Rightarrow> nat \<Rightarrow> Connection \<Rightarrow> unit result" where
  "flushDbKeys srv dbIndex cb st =
     (if m_currentMode st = Cluster then
        and_then (getMasterNodes srv st)
          (\<lambda>nodes st1.
             (let st2 = st1\<lparr>m_notVisitedMasterNodes := Some nodes\<rparr>;
                  onConnect = flushDbKeys_onConnect cb;
                  st3 = st2\<lparr>m_cmdCallback := flushDbKeys_cluster_lambda dbIndex cb\<rparr>
              in Inr ((), clusterConnectToNextMasterNode onConnect st3)))
      else
        and_then (command [''FLUSHDB''] (Some This) (flushDbKeys_lambda dbIndex cb) dbIndex st)
          (\<lambda>_ st1. Inr ((), st1)))"

definition refreshServerInfo :: "(string list \<Rightarrow> Response) \<Rightarrow> Connection \<Rightarrow> unit result" where
  "refreshServerInfo srv st =
     and_then (internalCommandSync srv [''INFO'', ''ALL''] st)
       (\<lambda>infoResult st1.
          Inr ((), st1\<lparr>m_serverInfo := fromString (toString (value' infoResult))\<rparr>))"

text \<open>
  \<^verbatim>\<open>auth\<close>: first the body of the \<^verbatim>\<open>try\<close> block. \<open>auth_sentinel\<close> is the branch for a
  sentinel, after the mode has been set.
\<close>

definition auth_sentinel :: "(string list \<Rightarrow> Response) \<Rightarrow> Connection \<Rightarrow> unit result" where
  "auth_sentinel srv st =
     and_then (internalCommandSync srv [''SENTINEL'', ''masters''] st)
       (\<lambda>mastersResult st1.
          if \<not> isArray mastersResult
          then emit_error ''Connection error: cannot retrive master node from sentinel'' st1
          else
            (let result = toList (value' mastersResult)
             in if length result = 0
                then emit_error ''Connection error: invalid response from sentinel'' st1
                else
                  (let masterInfo = toStringList (result ! 0)
                   in if length masterInfo < 6
                      then emit_error ''Connection error: invalid response from sentinel'' st1
                      else
                        (let host0 = masterInfo ! 3;
                             host1 = (if \<not> useSshTunnel (m_config st1) \<and>
                                         (host0 = ''127.0.0.1'' \<or> host0 = ''localhost'')
                                      then host (m_config st1) else host0)
                         in Inr ((), emit (Sig_reconnectTo host1 (toInt (masterInfo ! 5))) st1)))))"

text \<open>The end of \<^verbatim>\<open>auth\<close> that the cluster and the plain server share.\<close>

definition auth_connected :: "Connection \<Rightarrow> unit result" where
  "auth_connected st =
     and_then (emit_authOk (emit (Sig_log ''Connected'') st))
       (\<lambda>_ st1. Inr ((), emit Sig_connected st1))"

definition auth_try :: "(string list \<Rightarrow> Response) \<Rightarrow> Connection \<Rightarrow> unit result" where
  "auth_try srv st =
     and_then
       (if useAuth (m_config st)
        then and_then (internalCommandSync srv [''AUTH'', authPassword (m_config st)] st)
               (\<lambda>_ st1. Inr ((), st1))
        else Inr ((), st))
       (\<lambda>_ st1.
          and_then (internalCommandSync srv [''PING''] st1)
            (\<lambda>testResult st2.
               if toByteArray (value' testResult) \<noteq> ''PONG'' then
                 emit_error ''AUTH ERROR''
                   (emit_authError ''Redis server requires password or password is not valid'' st2)
               else
                 and_then (refreshServerInfo srv st2)
                   (\<lambda>_ st3.
                      if clusterMode (m_serverInfo st3) then
                        auth_connected
                          (emit (Sig_log ''Cluster detected'') (st3\<lparr>m_currentMode := Cluster\<rparr>))
                      else if sentinelMode (m_serverInfo st3) then
                        auth_sentinel srv
                          (emit (Sig_log ''Sentinel detected. Requesting master node...'')
                             (st3\<lparr>m_currentMode := Sentinel\<rparr>))
                      else auth_connected st3)))"

definition auth :: "(string list \<Rightarrow> Response) \<Rightarrow> Connection \<Rightarrow> unit result" where
  "auth srv st =
     (case auth_try srv (emit (Sig_log ''AUTH'') st) of
        Inl (e, st1) \<Rightarrow>
          (case caught e of
             Some what \<Rightarrow>
               and_then (emit_error (''Connection error on AUTH: '' @ what) st1)
                 (\<lambda>_ st2. Inr ((), emit_authError ''Connection error on AUTH'' st2))
           | None \<Rightarrow> Inl (e, st1))
      | Inr r \<Rightarrow> Inr r)"

section \<open>The transporter's replies\<close>

text \<open>
  The transporter answers the commands of one priority class in the order it received
  them. \<open>reply\<close> is the arrival of the reply to the oldest pending command: the command's
  callback runs with the reply and the transporter's error text. \<open>replies\<close> is a sequence of
  arrivals; it ends early when a callback fails.
\<close>

definition reply :: "Response \<Rightarrow> string \<Rightarrow> Connection \<Rightarrow> unit result" where
  "reply r error st =
     (case worker st of
        [] \<Rightarrow> Inr ((), st)
      | cmd # pending \<Rightarrow> call_Callback (callback cmd) r error (st\<lparr>worker := pending\<rparr>))"

fun replies :: "(Response \<times> string) list \<Rightarrow> Connection \<Rightarrow> unit result" where
  "replies [] st = Inr ((), st)"
| "replies ((r, error) # rs) st = and_then (reply r error st) (\<lambda>_ st1. replies rs st1)"



section \<open>Observations\<close>

text \<open>
  What the statements below read off a state: the calls of the callers' callbacks, and
  the commands handed to the worker, both in order.
\<close>

fun is_call :: "Event \<Rightarrow> bool" where
  "is_call (Call_Callback u r err) = True"
| "is_call (Call_CollectionCallback u c err) = True"
| "is_call (Call_IncrementalCollectionCallback u c err isLast) = True"
| "is_call (Call_RawKeysListCallback u keys err) = True"
| "is_call (Call_flushCallback u err) = True"
| "is_call e = False"

definition calls :: "Connection \<Rightarrow> Event list" where
  "calls st = filter is_call (emitted st)"

fun issued_by :: "Event \<Rightarrow> Command list" where
  "issued_by (Sig_addCommandToWorker cmd) = [cmd]"
| "issued_by e = []"

definition issued :: "Connection \<Rightarrow> Command list" where
  "issued st = concat (map issued_by (emitted st))"

definition returns :: "'a result \<Rightarrow> bool" where
  "returns m = (case m of Inl e \<Rightarrow> False | Inr r \<Rightarrow> True)"

text \<open>
  The commands of a scan chain: those handed to the worker since the state \<open>st\<close>, the
  chain's first command first. A chain has one command pending at a time, so reply \<open>i\<close> of
  the replies that arrive is the reply to command \<open>i\<close> of the chain.
\<close>

definition chain :: "Connection \<Rightarrow> Connection \<Rightarrow> Command list" where
  "chain st out = drop (length (issued st)) (issued out)"

text \<open>
  The substitution of \<open>iscan\<close>: the command \<open>c\<close>, named \<open>scan\<close> in any case, received
  the reply \<open>r\<close>, which is a disabled-command error, and the chain went on with \<open>c'\<close>,
  whose arguments are those of \<open>c\<close> with \<open>iscan\<close> in the place of the name.
\<close>

definition substitution :: "Command \<Rightarrow> Response \<Rightarrow> Command \<Rightarrow> bool" where
  "substitution c r c' =
     (toLower (getPartAsString c 0) = ''scan'' \<and> isErrorMessage r \<and>
      isDisabledCommandErrorMessage r \<and> args c' = (args c)[0 := ''iscan''])"

text \<open>
  \<open>scan_chain cmds rs\<close> reads the commands of a chain against the replies they received.
  Wherever a command \<open>c'\<close> was issued after the reply to a command \<open>c\<close>: when that reply is
  an error reply, the step is the substitution; when it is not, \<open>c'\<close> has the name of \<open>c\<close>.
  A command that follows a command without a reply does not occur. \<open>after_error\<close> counts
  the commands of the chain that were issued after an error reply.
\<close>

fun scan_chain :: "Command list \<Rightarrow> (Response \<times> string) list \<Rightarrow> bool" where
  "scan_chain (c # c' # cmds) (re # rs) =
     ((if isErrorMessage (fst re) then substitution c (fst re) c'
       else getPartAsString c' 0 = getPartAsString c 0) \<and>
      scan_chain (c' # cmds) rs)"
| "scan_chain (c # c' # cmds) [] = False"
| "scan_chain cmds rs = True"

fun after_error :: "Command list \<Rightarrow> (Response \<times> string) list \<Rightarrow> nat" where
  "after_error (c # c' # cmds) (re # rs) =
     (if isErrorMessage (fst re) then 1 else 0) + after_error (c' # cmds) rs"
| "after_error cmds rs = 0"

text \<open>
  What a cluster traversal shows in the events: the hosts of the \<^verbatim>\<open>reconnectTo\<close> signals, and
  the arguments and the target database of the commands handed to the worker, leaving
  out the high-priority commands, which are the ones that the connection runs for itself
  (\<^verbatim>\<open>AUTH\<close>, \<^verbatim>\<open>PING\<close>, \<^verbatim>\<open>INFO\<close>, \<^verbatim>\<open>CLUSTER SLOTS\<close>). \<open>flush_run\<close> is the list of the events of
  a run: the call of \<open>flushDbKeys\<close> and then the rounds of the nodes with the replies
  \<open>res\<close>. \<open>target\<close> is the host that \<^verbatim>\<open>clusterConnectToNextMasterNode\<close> reconnects to for the
  master \<open>h\<close>.
\<close>

fun reconnect_to :: "Event \<Rightarrow> Host list" where
  "reconnect_to (Sig_reconnectTo h p) = [(h, p)]"
| "reconnect_to e = []"

definition reconnects :: "Event list \<Rightarrow> Host list" where
  "reconnects es = concat (map reconnect_to es)"

definition node_commands :: "Event list \<Rightarrow> (string list \<times> int) list" where
  "node_commands es =
     map (\<lambda>c. (args c, db c)) (filter (\<lambda>c. \<not> hiPriority c) (concat (map issued_by es)))"




text \<open>
  How one run of \<open>auth\<close> ended, read off the events it added: it emitted \<^verbatim>\<open>authOk\<close>, or it
  emitted \<^verbatim>\<open>error\<close>, or neither (the sentinel asked the transporter to reconnect to the
  master, and \<open>auth\<close> will run again).
\<close>

datatype AuthOutcome = Succeeded | Failed | Redirected

fun is_error :: "Event \<Rightarrow> bool" where
  "is_error (Sig_error err) = True"
| "is_error e = False"

definition auth_outcome :: "Event list \<Rightarrow> AuthOutcome" where
  "auth_outcome new =
     (if Sig_authOk \<in> set new then Succeeded
      else if list_ex is_error new then Failed
      else Redirected)"

text \<open>
  The state that \<^verbatim>\<open>runCommand\<close> leaves when it defers \<open>cmd\<close>: the worker thread runs, the
  lambda for \<open>cmd\<close> and the deferred object \<open>d\<close> is the one callback that waits for the
  connection, \<open>d\<close> is pending, and the worker holds no command.
\<close>

definition awaiting_connect :: "Command \<Rightarrow> nat \<Rightarrow> Connection \<Rightarrow> bool" where
  "awaiting_connect cmd d st =
     (contexts st = [runCommand_lambda cmd d] \<and> isConnected st \<and> deferreds st d = Pending \<and>
      worker st = [])"

section \<open>Example inputs\<close>

text \<open>
  The inputs at which the statements below are evaluated: a configuration, a connection
  whose worker thread runs, the command \<^verbatim>\<open>SCAN 0 MATCH * COUNT 100\<close>, a valid reply to a scan
  with a cursor and keys, and an error reply with its text.
\<close>

definition example_config :: ConnectionConfig where
  "example_config =
     \<lparr>host = ''db.example.com'', port = 6379, useAuth = False, authPassword = [],
      useSshTunnel = False, overrideClusterHost = True, isValid_config = True\<rparr>"

definition connected_example :: Connection where
  "connected_example =
     (Connection_new example_config False False 0 10000)
       \<lparr>m_transporter := Some DefaultTransporter, m_transporterThread := Some True,
        authError_connections := 1\<rparr>"

definition example_scan :: RawCommand where
  "example_scan =
     \<lparr>args = [''SCAN'', ''0'', ''MATCH'', ''*'', ''COUNT'', ''100''], db = 0, hiPriority = False\<rparr>"

definition scan_reply :: "int \<Rightarrow> string list \<Rightarrow> Response" where
  "scan_reply cursor keys =
     \<lparr>value' = List [ByteArray (number cursor), List (map ByteArray keys)],
      isErrorMessage = False, isDisabledCommandErrorMessage = False, isArray = True,
      isValidScanResponse = True, getCursor = cursor, getCollection = map ByteArray keys\<rparr>"

definition error_reply :: "string \<Rightarrow> bool \<Rightarrow> Response" where
  "error_reply text disabled =
     \<lparr>value' = ByteArray text, isErrorMessage = True,
      isDisabledCommandErrorMessage = disabled, isArray = False,
      isValidScanResponse = False, getCursor = 0, getCollection = []\<rparr>"

text \<open>A reply that carries a value and is no error, and an array reply.\<close>

definition value_reply :: "QVariant \<Rightarrow> Response" where
  "value_reply v =
     \<lparr>value' = v, isErrorMessage = False, isDisabledCommandErrorMessage = False,
      isArray = False, isValidScanResponse = False, getCursor = 0, getCollection = []\<rparr>"

definition array_reply :: "QVariant list \<Rightarrow> Response" where
  "array_reply vs =
     \<lparr>value' = List vs, isErrorMessage = False, isDisabledCommandErrorMessage = False,
      isArray = True, isValidScanResponse = False, getCursor = 0, getCollection = []\<rparr>"

text \<open>
  A sentinel: it answers \<^verbatim>\<open>PING\<close>, names its mode in \<^verbatim>\<open>INFO\<close>, and reports one master at a
  loopback address.
\<close>

definition sentinel_server :: "string list \<Rightarrow> Response" where
  "sentinel_server rawCmd =
     (if rawCmd = [''PING''] then value_reply (ByteArray ''PONG'')
      else if rawCmd = [''INFO'', ''ALL'']
      then value_reply (ByteArray (''redis_mode:sentinel'' @ [CR, LF]))
      else array_reply
             [List (map ByteArray [''name'', ''mymaster'', ''ip'', ''127.0.0.1'', ''port'', ''6380''])])"

text \<open>
  A plain server with its \<^verbatim>\<open>INFO\<close> text, a command of a caller, and a connection in cluster
  mode whose worker thread runs.
\<close>

definition standalone_info :: string where
  "standalone_info = ''redis_mode:standalone'' @ [CR, LF]"

definition plain_server :: "string list \<Rightarrow> Response" where
  "plain_server rawCmd =
     (if rawCmd = [''PING''] then value_reply (ByteArray ''PONG'')
      else if rawCmd = [''INFO'', ''ALL''] then value_reply (ByteArray standalone_info)
      else array_reply [])"

definition example_command :: Command where
  "example_command =
     \<lparr>args = [''GET'', ''key''], db = 0, hiPriority = False, owner = None,
      callback = NoCallback\<rparr>"

definition cluster_example :: Connection where
  "cluster_example = connected_example\<lparr>m_currentMode := Cluster\<rparr>"




section \<open>Properties of \<^verbatim>\<open>ServerInfo::fromString\<close>\<close>

subsection \<open>The ordered map\<close>

lemma qmap_insert_keys: "fst ` set (qmap_insert k v m) = insert k (fst ` set m)"
  by (induction k v m rule: qmap_insert.induct) auto

lemma qmap_insert_sorted:
  "sorted_wrt (<) (map fst m) \<Longrightarrow> sorted_wrt (<) (map fst (qmap_insert k v m))"
proof (induction k v m rule: qmap_insert.induct)
  case (1 k v)
  show ?case by simp
next
  case (2 k v k' v' m)
  from "2.prems" have tl_sorted: "sorted_wrt (<) (map fst m)"
    and above: "\<forall>x\<in>fst ` set m. k' < x"
    by simp_all
  show ?case
  proof (cases "k < k' \<or> k = k'")
    case True
    with "2.prems" show ?thesis by auto
  next
    case False
    then have "sorted_wrt (<) (map fst (qmap_insert k v m))"
      using "2.IH" tl_sorted by simp
    with False above show ?thesis
      by (auto simp: qmap_insert_keys)
  qed
qed

lemma qmap_insert_map_of:
  "sorted_wrt (<) (map fst m) \<Longrightarrow> map_of (qmap_insert k v m) = (map_of m)(k \<mapsto> v)"
  by (induction k v m rule: qmap_insert.induct) (auto simp: fun_upd_twist)

lemma insert_all:
  "sorted_wrt (<) (map fst m) \<Longrightarrow>
   sorted_wrt (<) (map fst (foldl (\<lambda>m (k, v). qmap_insert k v m) m obs)) \<and>
   fst ` set (foldl (\<lambda>m (k, v). qmap_insert k v m) m obs) = fst ` set m \<union> fst ` set obs \<and>
   map_of (foldl (\<lambda>m (k, v). qmap_insert k v m) m obs) = map_of m ++ map_of (rev obs)"
proof (induction obs arbitrary: m)
  case Nil
  then show ?case by simp
next
  case (Cons e obs)
  obtain k v where e: "e = (k, v)" by (cases e)
  have s: "sorted_wrt (<) (map fst (qmap_insert k v m))"
    using Cons.prems by (rule qmap_insert_sorted)
  have maps: "(map_of m)(k \<mapsto> v) ++ map_of (rev obs) = map_of m ++ map_of (rev (e # obs))"
    by (rule ext) (simp add: e map_add_def split: option.splits)
  have step: "foldl (\<lambda>m (k, v). qmap_insert k v m) m (e # obs)
            = foldl (\<lambda>m (k, v). qmap_insert k v m) (qmap_insert k v m) obs"
    by (simp add: e)
  have keys: "fst ` set (qmap_insert k v m) \<union> fst ` set obs = fst ` set m \<union> fst ` set (e # obs)"
    by (simp add: e qmap_insert_keys)
  show ?case
    unfolding step
    using Cons.IH [OF s]
    by (simp only: keys qmap_insert_map_of [OF Cons.prems] maps) 
qed

lemma fill_loop:
  "sorted_wrt (<) (map fst m) \<Longrightarrow>
   sorted_wrt (<) (map fst (foldl (\<lambda>m i. if \<not> qmap_contains m i then qmap_insert i 0 m else m) m xs)) \<and>
   fst ` set (foldl (\<lambda>m i. if \<not> qmap_contains m i then qmap_insert i 0 m else m) m xs)
     = fst ` set m \<union> set xs \<and>
   (\<forall>i. map_of (foldl (\<lambda>m i. if \<not> qmap_contains m i then qmap_insert i 0 m else m) m xs) i
     = (case map_of m i of Some v \<Rightarrow> Some v | None \<Rightarrow> if i \<in> set xs then Some 0 else None))"
proof (induction xs arbitrary: m)
  case Nil
  then show ?case by (simp split: option.splits)
next
  case (Cons x xs)
  show ?case
  proof (cases "qmap_contains m x")
    case True
    then have "map_of m x \<noteq> None"
      by (simp add: qmap_contains_def map_of_eq_None_iff)
    with True Cons.IH [OF Cons.prems] show ?thesis
      by (auto simp: qmap_contains_def split: option.splits)
  next
    case False
    then have none: "map_of m x = None"
      by (simp add: qmap_contains_def map_of_eq_None_iff)
    have s: "sorted_wrt (<) (map fst (qmap_insert x 0 m))"
      using Cons.prems by (rule qmap_insert_sorted)
    from False Cons.IH [OF s] none show ?thesis
      by (auto simp: qmap_insert_keys qmap_insert_map_of [OF Cons.prems] split: option.splits)
  qed
qed

lemma last_is_Max:
  "sorted_wrt (<) (xs :: int list) \<Longrightarrow> xs \<noteq> [] \<Longrightarrow> last xs = Max (set xs)"
proof (induction xs)
  case Nil
  then show ?case by simp
next
  case (Cons x xs)
  show ?case
  proof (cases "xs = []")
    case True
    then show ?thesis by simp
  next
    case False
    with Cons have l: "last xs = Max (set xs)" by simp
    have "last xs \<in> set xs" using False by simp
    with Cons.prems have "x < last xs" by auto
    with l False show ?thesis by (simp add: max_def)
  qed
qed

lemma entries_from_keys:
  "distinct (map fst xs) \<Longrightarrow> map (\<lambda>k. (k, the (map_of xs k))) (map fst xs) = xs"
proof (induction xs)
  case Nil
  show ?case by simp
next
  case (Cons e xs)
  obtain a b where e: "e = (a, b)" by (cases e)
  from Cons.prems have "a \<notin> fst ` set xs" and d: "distinct (map fst xs)"
    by (simp_all add: e)
  then have "map (\<lambda>k. (k, the (map_of ((a, b) # xs) k))) (map fst xs)
           = map (\<lambda>k. (k, the (map_of xs k))) (map fst xs)"
    by (intro map_cong) auto
  with Cons.IH [OF d] show ?case by (simp add: e)
qed

lemma dense_fill:
  assumes nonneg: "\<forall>e\<in>set obs. 0 \<le> fst e"
  shows "(let m = foldl (\<lambda>m (k, v). qmap_insert k v m) [] obs
          in if length m = 0 then m else fill_gaps m) = spec_dense obs"
proof (cases "obs = []")
  case True
  then show ?thesis by (simp add: spec_dense_def)
next
  case False
  define m where "m = foldl (\<lambda>m (k, v). qmap_insert k v m) [] obs"
  have m_sorted: "sorted_wrt (<) (map fst m)"
    and m_keys: "fst ` set m = fst ` set obs"
    and m_map: "map_of m = map_of (rev obs)"
    using insert_all [of "[]" obs] by (simp_all add: m_def)
  from False m_keys have m_ne: "m \<noteq> []" by auto
  define n where "n = qmap_lastKey m"
  have n_Max: "n = Max (set (map fst obs))"
    using last_is_Max [of "map fst m"] m_sorted m_ne m_keys
    by (simp add: n_def qmap_lastKey_def last_map)
  have n_key: "n \<in> fst ` set obs"
    unfolding n_Max using False Max_in [of "set (map fst obs)"] by simp
  have below: "\<forall>k\<in>fst ` set obs. k \<le> n"
    unfolding n_Max by simp
  define r where "r = fill_gaps m"
  have r_sorted: "sorted_wrt (<) (map fst r)"
    and r_keys: "fst ` set r = fst ` set m \<union> set [0 .. n - 1]"
    and r_map: "\<And>i. map_of r i =
          (case map_of m i of Some v \<Rightarrow> Some v | None \<Rightarrow> if i \<in> set [0 .. n - 1] then Some 0 else None)"
    using fill_loop [OF m_sorted, of "[0 .. n - 1]"]
    by (simp_all add: r_def fill_gaps_def n_def Let_def)
  define K where "K = fst ` set obs"
  have "\<forall>k\<in>K. 0 \<le> k"
    using nonneg by (simp add: K_def)
  then have "K \<union> {0 .. n - 1} = {0 .. n}"
    using n_key below unfolding K_def [symmetric] by auto
  then have "set (map fst r) = {0 .. n}"
    using r_keys m_keys by (simp add: K_def)
  then have keys: "map fst r = [0 .. n]"
    using strict_sorted_equal [of "[0 .. n]" "map fst r"] r_sorted
    by simp
  have "distinct (map fst r)"
    by (simp add: keys)
  then have "r = map (\<lambda>k. (k, the (map_of r k))) [0 .. n]"
    using entries_from_keys [of r] by (simp add: keys)
  also have "\<dots> = map (\<lambda>i. (i, case map_of (rev obs) i of None \<Rightarrow> 0 | Some v \<Rightarrow> v)) [0 .. n]"
  proof -
    have "map_of (rev obs) n \<noteq> None"
      using n_key by (simp add: map_of_eq_None_iff)
    then show ?thesis
      by (intro map_cong) (auto simp: r_map m_map split: option.splits)
  qed
  finally have "r = spec_dense obs"
    using False by (simp add: spec_dense_def n_Max)
  with m_ne show ?thesis
    by (simp add: m_def [symmetric] r_def Let_def)
qed

subsection \<open>The reported indices are not negative\<close>

lemma digit_not_space: "is_digit c \<Longrightarrow> \<not> is_space c"
  by (auto simp: is_digit_def is_space_def)

lemma digit_not_minus: "is_digit c \<Longrightarrow> c \<noteq> CHR ''-''"
  by (auto simp: is_digit_def)

lemma dropWhile_unchanged: "xs \<noteq> [] \<Longrightarrow> \<not> P (hd xs) \<Longrightarrow> dropWhile P xs = xs"
  by (cases xs) simp_all

lemma toInt_digits_nonneg:
  assumes "list_all is_digit s"
  shows "0 \<le> toInt s"
proof (cases "s = []")
  case True
  then show ?thesis by (simp add: toInt_def)
next
  case False
  with assms have "is_digit (hd s)" and "is_digit (last s)"
    by (simp_all add: list_all_iff)
  then have "\<not> is_space (hd s)" and "\<not> is_space (hd (rev s))" and "hd s \<noteq> CHR ''-''"
    using False by (simp_all add: digit_not_space digit_not_minus hd_rev)
  then have "rev (dropWhile is_space (rev (dropWhile is_space s))) = s"
    using False by (simp add: dropWhile_unchanged)
  with \<open>hd s \<noteq> CHR ''-''\<close> show ?thesis
    by (simp add: toInt_def Let_def)
qed

lemma match_db_line_digits:
  "match_db_line l = Some (idx, keys) \<Longrightarrow> list_all is_digit idx"
  by (auto simp: match_db_line_def Let_def list_all_iff split: if_splits dest: set_takeWhileD)

lemma reported_nonneg: "\<forall>e\<in>set (reported info). 0 \<le> fst e"
  by (auto simp: reported_def globalMatch_def List.map_filter_def
      intro!: toInt_digits_nonneg dest: match_db_line_digits)

subsection \<open>What \<^verbatim>\<open>toInt\<close> reads from the digits of a keyspace line\<close>

lemma digit_not_plus: "is_digit c \<Longrightarrow> c \<noteq> CHR ''+''"
  by (auto simp: is_digit_def)

lemma toInt_digits:
  assumes "list_all is_digit s" and "s \<noteq> []"
  shows "toInt s = int_reading s"
proof -
  from assms have "is_digit (hd s)" and "is_digit (last s)"
    by (simp_all add: list_all_iff)
  then have "\<not> is_space (hd s)" and "\<not> is_space (hd (rev s))" and "hd s \<noteq> CHR ''-''"
    and "hd s \<noteq> CHR ''+''"
    using assms(2) by (simp_all add: digit_not_space digit_not_minus digit_not_plus hd_rev)
  moreover from this have "rev (dropWhile is_space (rev (dropWhile is_space s))) = s"
    using assms(2) by (simp add: dropWhile_unchanged)
  ultimately show ?thesis
    using assms by (simp add: toInt_def int_reading_def Let_def)
qed

lemma match_db_line_captures:
  "match_db_line l = Some (idx, keys) \<Longrightarrow>
   list_all is_digit idx \<and> idx \<noteq> [] \<and> list_all is_digit keys \<and> keys \<noteq> []"
  by (auto simp: match_db_line_def Let_def list_all_iff split: if_splits dest: set_takeWhileD)

lemma toInt_captures:
  "match_db_line l = Some (idx, keys) \<Longrightarrow>
   toInt idx = int_reading idx \<and> toInt keys = int_reading keys"
  using match_db_line_captures [of l idx keys] by (simp add: toInt_digits)

lemma reported_observed: "reported info = observed info"
  by (auto simp: reported_def observed_def globalMatch_def List.map_filter_def
      dest: toInt_captures)

lemmas fromString_eval =
  fromString_def ServerInfo_new_def modeRegex_def ci_prefix_def toLower_def to_lower_def
  is_alpha_def reported_def globalMatch_def List.map_filter_def match_db_line_def is_digit_def
  toInt_def is_space_def digits_value_def digit_value_def fill_gaps_def qmap_lastKey_def
  qmap_contains_def spec_dense_def observed_def int_reading_def CR_def LF_def Let_def upto.simps

subsection \<open>The keyspace map\<close>

text \<open>
  C7, as amended. For every text, the keyspace map of \<open>fromString\<close> holds the single entry
  0 \<mapsto> 0 when the text names the cluster mode; it is empty when the text names the
  sentinel mode, whatever keyspace lines the text has. Otherwise the index and the key count
  of every keyspace line are read as 32-bit integers, a string of digits whose value exceeds
  2147483647 being read as 0, and the map holds every index from 0 up to the largest index
  so read, with the count read last for that index, and with 0 for an index that was read
  from no line; it is empty when the text has no keyspace line.
\<close>

theorem fromString_databases:
  "databases (fromString info) =
     (if clusterMode (fromString info) then [(0, 0)]
      else if sentinelMode (fromString info) then []
      else spec_dense (observed info))"
proof -
  define result0 where "result0 = ServerInfo_new
            \<lparr>parsed := fst (foldl parse_line (Map.empty, ''unknown'') (split_crlf [] info)),
             version := regex_search versionRegex info\<rparr>"
  define result1 where "result1 =
            (case regex_search modeRegex info of
               None \<Rightarrow> result0
             | Some cap1 \<Rightarrow>
                 (let r = (if cap1 = ''cluster'' then result0\<lparr>clusterMode := True\<rparr>
                           else result0)
                  in if cap1 = ''sentinel'' then r\<lparr>sentinelMode := True\<rparr> else r))"
  have empty: "databases result1 = []"
    by (simp add: result1_def result0_def ServerInfo_new_def Let_def split: option.splits)
  have unfolded: "fromString info =
      (if clusterMode result1 then result1\<lparr>databases := qmap_insert 0 0 (databases result1)\<rparr>
         else if sentinelMode result1 then result1
         else
           (let result2 = result1
                  \<lparr>databases := foldl (\<lambda>m (dbIndex, keys). qmap_insert dbIndex keys m)
                                  (databases result1) (reported info)\<rparr>
            in if length (databases result2) = 0 then result2
               else result2\<lparr>databases := fill_gaps (databases result2)\<rparr>))"
    by (simp only: fromString_def result1_def result0_def Let_def)
  show ?thesis
  proof (cases "clusterMode result1")
    case True
    then show ?thesis by (simp add: unfolded empty)
  next
    case False
    show ?thesis
    proof (cases "sentinelMode result1")
      case True
      with False show ?thesis by (simp add: unfolded empty)
    next
      case not_sentinel: False
      have "databases (fromString info) =
            (let m = foldl (\<lambda>m (k, v). qmap_insert k v m) [] (reported info)
             in if length m = 0 then m else fill_gaps m)"
        using False not_sentinel by (simp add: unfolded empty Let_def)
      also have "\<dots> = spec_dense (reported info)"
        using reported_nonneg by (rule dense_fill)
      also have "\<dots> = spec_dense (observed info)"
        by (simp only: reported_observed)
      finally show ?thesis
        using False not_sentinel by (simp add: unfolded Let_def)
    qed
  qed
qed

text \<open>A plain server that reports the databases 0 and 2: database 1 is filled in with 0.\<close>

theorem fromString_databases_witness:
  "databases (fromString
      (''redis_mode:standalone'' @ [CR, LF] @ ''db0:keys=3,expires=0'' @ [CR, LF]
       @ ''db2:keys=1,expires=0'' @ [CR, LF]))
   = [(0, 3), (1, 0), (2, 1)]"
  using fromString_databases
    [of "''redis_mode:standalone'' @ [CR, LF] @ ''db0:keys=3,expires=0'' @ [CR, LF]
       @ ''db2:keys=1,expires=0'' @ [CR, LF]"]
  by (simp add: fromString_eval)

text \<open>
  The reading matters when the digits of an index do not fit: the one keyspace line below
  has the index 4294967296, which is read as 0, so the map holds the 7 keys at index 0.
\<close>

lemma fromString_index_overflow:
  "observed ''db4294967296:keys=7'' = [(0, 7)] \<and>
   databases (fromString ''db4294967296:keys=7'') = [(0, 7)]"
  by (simp add: fromString_eval)

text \<open>
  C7 as it is stated fails for a sentinel: the text below names the sentinel mode and
  has a keyspace line for database 2 with 5 keys, the map of a text that is not a cluster
  should then hold the indices 0 to 2, and the map that \<open>fromString\<close> returns is empty.
\<close>

theorem fromString_sentinel_counterexample:
  "\<not> clusterMode (fromString (''redis_mode:sentinel'' @ [CR, LF] @ ''db2:keys=5'' @ [CR, LF]))
   \<and> sentinelMode (fromString (''redis_mode:sentinel'' @ [CR, LF] @ ''db2:keys=5'' @ [CR, LF]))
   \<and> observed (''redis_mode:sentinel'' @ [CR, LF] @ ''db2:keys=5'' @ [CR, LF]) = [(2, 5)]
   \<and> spec_dense (observed (''redis_mode:sentinel'' @ [CR, LF] @ ''db2:keys=5'' @ [CR, LF]))
       = [(0, 0), (1, 0), (2, 5)]
   \<and> databases (fromString (''redis_mode:sentinel'' @ [CR, LF] @ ''db2:keys=5'' @ [CR, LF])) = []"
  by (simp add: fromString_eval)

section \<open>Properties of the scan chain\<close>

subsection \<open>Steps on a connection that is up\<close>

lemma runCommand_connected:
  "isConnected st \<Longrightarrow> isValid cmd \<Longrightarrow>
   runCommand cmd st = Inr (future_of cmd, addCommandToWorker cmd (cancel_when_destroyed cmd st))"
  by (simp add: runCommand_def)

lemma cancel_when_destroyed_This [simp]:
  "owner cmd = Some This \<Longrightarrow> cancel_when_destroyed cmd st = st"
  "owner cmd = None \<Longrightarrow> cancel_when_destroyed cmd st = st"
  by (simp_all add: cancel_when_destroyed_def)

lemma isValid_cmdWithCallback [simp]:
  "isValid (cmdWithCallback cmd acc cb incr) = (args cmd \<noteq> [])"
  by (simp add: isValid_def cmdWithCallback_def)

lemma owner_cmdWithCallback [simp]: "owner (cmdWithCallback cmd acc cb incr) = Some This"
  by (simp add: cmdWithCallback_def)

lemma callback_cmdWithCallback [simp]:
  "callback (cmdWithCallback cmd acc cb incr) = processScanCommand_lambda cmd acc cb incr"
  by (simp add: cmdWithCallback_def)

lemma processScanCommand_connected:
  "isConnected st \<Longrightarrow> args cmd \<noteq> [] \<Longrightarrow>
   processScanCommand cmd cb result incr st =
     Inr ((), st\<lparr>emitted := emitted st @
                    [Sig_addCommandToWorker
                       (cmdWithCallback cmd (case result of None \<Rightarrow> [] | Some xs \<Rightarrow> xs) cb incr)],
                  worker := worker st @
                    [cmdWithCallback cmd (case result of None \<Rightarrow> [] | Some xs \<Rightarrow> xs) cb incr]\<rparr>)"
  by (simp add: processScanCommand_def runCommand_connected and_then_def Let_def
      addCommandToWorker_def emit_def)

lemma isConnected_updates [simp]:
  "isConnected (st\<lparr>emitted := e\<rparr>) = isConnected st"
  "isConnected (st\<lparr>worker := w\<rparr>) = isConnected st"
  "isConnected (st\<lparr>contexts := c\<rparr>) = isConnected st"
  "isConnected (st\<lparr>deferreds := d\<rparr>) = isConnected st"
  "isConnected (st\<lparr>heap := h\<rparr>) = isConnected st"
  "isConnected (st\<lparr>m_notVisitedMasterNodes := n\<rparr>) = isConnected st"
  by (simp_all add: isConnected_def isTransporterRunning_def)

lemma args_setCursor_nonempty [simp]: "(args (setCursor cmd c) = []) = (args cmd = [])"
  by (simp add: setCursor_def)

lemma part0_setCursor [simp]: "getPartAsString (setCursor cmd c) 0 = getPartAsString cmd 0"
  by (auto simp: setCursor_def getPartAsString_def cursor_index_def)


lemma reply_scan:
  "worker st = cmdWithCallback cmd acc cb incr # pending \<Longrightarrow>
   reply r e st = scan_callback cmd acc cb incr r e (st\<lparr>worker := pending\<rparr>)"
  by (simp add: reply_def call_Callback_def)

lemma replies_idle: "worker st = [] \<Longrightarrow> replies rs st = Inr ((), st)"
  by (induction rs) (auto simp: reply_def and_then_def)

lemma calls_emit [simp]: "calls (emit e st) = calls st @ (if is_call e then [e] else [])"
  by (simp add: calls_def emit_def)

lemma calls_updates [simp]:
  "calls (st\<lparr>worker := w\<rparr>) = calls st"
  "calls (st\<lparr>emitted := es\<rparr>) = filter is_call es"
  by (simp_all add: calls_def)

lemma worker_emit [simp]: "worker (emit e st) = worker st"
  by (simp add: emit_def)

text \<open>One round of an aggregating chain whose reply carries a cursor above 0.\<close>

lemma aggregate_step:
  assumes "isConnected st" and "args cmd \<noteq> []"
    and "worker st = [cmdWithCallback cmd acc cb False]"
    and "\<not> isErrorMessage r" and "isValidScanResponse r" and "0 < getCursor r"
  shows "reply r [] st =
     Inr ((), st\<lparr>worker := [cmdWithCallback (setCursor cmd (getCursor r)) (acc @ getCollection r) cb False],
                  emitted := emitted st @ [Sig_addCommandToWorker
                     (cmdWithCallback (setCursor cmd (getCursor r)) (acc @ getCollection r) cb False)]\<rparr>)"
  using assms
  by (simp add: reply_scan scan_callback_def processScanCommand_connected
      incrementalProcessing_default_def Let_def)

lemma aggregate_last:
  assumes "worker st = [cmdWithCallback cmd acc (UserCollectionCallback u) False]"
    and "\<not> isErrorMessage r" and "isValidScanResponse r" and "getCursor r \<le> 0"
  shows "reply r [] st =
     Inr ((), emit (Call_CollectionCallback u (List (acc @ getCollection r)) []) (st\<lparr>worker := []\<rparr>))"
  using assms
  by (simp add: reply_scan scan_callback_def call_CollectionCallback_def Let_def)

lemma aggregate_chain:
  assumes "\<forall>r\<in>set rs. \<not> isErrorMessage r \<and> isValidScanResponse r \<and> 0 < getCursor r"
    and "\<not> isErrorMessage final" and "isValidScanResponse final" and "getCursor final \<le> 0"
    and "isConnected st" and "args cmd \<noteq> []"
    and "worker st = [cmdWithCallback cmd acc (UserCollectionCallback u) False]"
  shows "returns (replies (map (\<lambda>r. (r, [])) (rs @ [final])) st) \<and>
         calls (state_of (replies (map (\<lambda>r. (r, [])) (rs @ [final])) st)) =
           calls st @ [Call_CollectionCallback u
                         (List (acc @ concat (map getCollection (rs @ [final])))) []] \<and>
         worker (state_of (replies (map (\<lambda>r. (r, [])) (rs @ [final])) st)) = []"
  using assms
proof (induction rs arbitrary: st cmd acc)
  case Nil
  then show ?case
    by (simp add: aggregate_last and_then_def returns_def state_of_def)
next
  case (Cons r rs)
  define cmd1 where "cmd1 = setCursor cmd (getCursor r)"
  define st1 where "st1 = st\<lparr>worker := [cmdWithCallback cmd1 (acc @ getCollection r) (UserCollectionCallback u) False],
                  emitted := emitted st @ [Sig_addCommandToWorker
                     (cmdWithCallback cmd1 (acc @ getCollection r) (UserCollectionCallback u) False)]\<rparr>"
  have step: "reply r [] st = Inr ((), st1)"
    using Cons.prems aggregate_step [of st cmd acc "UserCollectionCallback u" r]
    by (simp add: st1_def cmd1_def)
  have ih: "returns (replies (map (\<lambda>r. (r, [])) (rs @ [final])) st1) \<and>
         calls (state_of (replies (map (\<lambda>r. (r, [])) (rs @ [final])) st1)) =
           calls st1 @ [Call_CollectionCallback u
                         (List ((acc @ getCollection r) @ concat (map getCollection (rs @ [final])))) []] \<and>
         worker (state_of (replies (map (\<lambda>r. (r, [])) (rs @ [final])) st1)) = []"
    using Cons.prems by (intro Cons.IH) (simp_all add: st1_def cmd1_def)
  have "calls st1 = calls st"
    by (simp add: st1_def calls_def)
  with ih step show ?case
    by (simp add: and_then_def)
qed

subsection \<open>The aggregate chain\<close>

lemma connected_example_facts:
  "isConnected connected_example" "worker connected_example = []"
  "emitted connected_example = []" "calls connected_example = []"
  by (simp_all add: connected_example_def Connection_new_def isConnected_def
      isTransporterRunning_def calls_def)

lemma example_scan_valid: "isValidScanCommand example_scan"
  by (simp add: example_scan_def isValidScanCommand_def getPartAsString_def toLower_def
      to_lower_def cursor_index_def)

lemma isValidScanCommand_args: "isValidScanCommand cmd \<Longrightarrow> args cmd \<noteq> []"
  by (auto simp: isValidScanCommand_def)

text \<open>
  C4. A chain started by \<open>retrieveCollection\<close> with a valid scan command, on a connection
  that is up and has nothing else pending, to which the server replies with valid scan
  replies (no error, no transport error) whose cursors are above 0 until a last one with
  cursor 0: the run returns, the caller's callback is called exactly once, with the
  concatenation of all batches in the order of the replies and with the empty error text,
  and no command is left pending.
\<close>

theorem retrieveCollection_aggregates:
  assumes "isValidScanCommand cmd" and "isConnected st" and "worker st = []"
    and "\<forall>r\<in>set rs. \<not> isErrorMessage r \<and> isValidScanResponse r \<and> 0 < getCursor r"
    and "\<not> isErrorMessage final" and "isValidScanResponse final" and "getCursor final = 0"
  shows
    "returns (and_then (retrieveCollection cmd (UserCollectionCallback u) st)
                (\<lambda>_ st1. replies (map (\<lambda>r. (r, [])) (rs @ [final])) st1)) \<and>
     calls (state_of (and_then (retrieveCollection cmd (UserCollectionCallback u) st)
                (\<lambda>_ st1. replies (map (\<lambda>r. (r, [])) (rs @ [final])) st1))) =
       calls st @ [Call_CollectionCallback u (List (concat (map getCollection (rs @ [final])))) []] \<and>
     worker (state_of (and_then (retrieveCollection cmd (UserCollectionCallback u) st)
                (\<lambda>_ st1. replies (map (\<lambda>r. (r, [])) (rs @ [final])) st1))) = []"
proof -
  define c0 where "c0 = cmdWithCallback cmd [] (UserCollectionCallback u) False"
  define st0 where "st0 = st\<lparr>emitted := emitted st @ [Sig_addCommandToWorker c0], worker := [c0]\<rparr>"
  have ne: "args cmd \<noteq> []"
    using assms(1) by (rule isValidScanCommand_args)
  have start: "retrieveCollection cmd (UserCollectionCallback u) st = Inr ((), st0)"
    using assms(1-3) ne
    by (simp add: retrieveCollection_def processScanCommand_connected
        incrementalProcessing_default_def st0_def c0_def)
  have run: "returns (replies (map (\<lambda>r. (r, [])) (rs @ [final])) st0) \<and>
         calls (state_of (replies (map (\<lambda>r. (r, [])) (rs @ [final])) st0)) =
           calls st0 @ [Call_CollectionCallback u
                         (List ([] @ concat (map getCollection (rs @ [final])))) []] \<and>
         worker (state_of (replies (map (\<lambda>r. (r, [])) (rs @ [final])) st0)) = []"
    using assms(2,4-7) ne
    by (intro aggregate_chain) (simp_all add: st0_def c0_def)
  have "calls st0 = calls st"
    by (simp add: st0_def calls_def)
  with run show ?thesis
    by (simp add: start and_then_def)
qed

lemmas scan_eval =
  connected_example_def Connection_new_def example_config_def example_scan_def scan_reply_def
  error_reply_def isConnected_def isTransporterRunning_def and_then_def state_of_def returns_def
  retrieveCollection_def retrieveCollectionIncrementally_def isValidScanCommand_def
  getPartAsString_def toLower_def to_lower_def cursor_index_def processScanCommand_def
  cmdWithCallback_def runCommand_def addCommandToWorker_def cancel_when_destroyed_def
  isValid_def emit_def reply_def call_Callback_def
  scan_callback_def setCursor_def number_def incrementalProcessing_default_def
  call_CollectionCallback_def END_OF_COLLECTION_def default_db_def calls_def issued_def Let_def

text \<open>
  The scan of the specification's scenario: the replies \<open>(48, [a, b])\<close> and \<open>(0, [c])\<close>
  give one call with \<open>[a, b, c]\<close>.
\<close>

theorem retrieveCollection_aggregates_witness:
  "calls (state_of (and_then (retrieveCollection example_scan (UserCollectionCallback 7) connected_example)
                (\<lambda>_ st1. replies [(scan_reply 48 [''a'', ''b''], []), (scan_reply 0 [''c''], [])] st1))) =
       [Call_CollectionCallback 7 (List [ByteArray ''a'', ByteArray ''b'', ByteArray ''c'']) []]"
  using retrieveCollection_aggregates
    [of example_scan connected_example "[scan_reply 48 [''a'', ''b'']]" "scan_reply 0 [''c'']" 7]
  by (simp add: connected_example_facts example_scan_valid) (simp add: scan_reply_def)

text \<open>
  C1 fails on the code. \<open>retrieveCollectionIncrementally\<close> passes
  \<open>incrementalProcessing = True\<close>, but the lambda of \<^verbatim>\<open>processScanCommand\<close> goes on after a
  cursor above 0 without calling the callback and without passing the flag on, so the rest
  of the chain runs in the aggregate mode. With the replies \<open>(48, [a, b])\<close> and
  \<open>(0, [c])\<close> the caller's incremental callback is called once, with all three keys and
  with \<open>isLast = False\<close>; it is never called with \<open>isLast = True\<close>.
\<close>

theorem incremental_chain_never_last:
  "calls (state_of (and_then (retrieveCollectionIncrementally example_scan 7 connected_example)
                (\<lambda>_ st1. replies [(scan_reply 48 [''a'', ''b''], []), (scan_reply 0 [''c''], [])] st1))) =
       [Call_IncrementalCollectionCallback 7
          (List [ByteArray ''a'', ByteArray ''b'', ByteArray ''c'']) [] False]"
  by (simp add: scan_eval)

subsection \<open>Error replies\<close>

lemma issued_emit [simp]:
  "issued (emit e st) = issued st @ issued_by e"
  by (simp add: issued_def emit_def)

lemma issued_updates [simp]:
  "issued (st\<lparr>worker := w\<rparr>) = issued st"
  "issued (st\<lparr>heap := h\<rparr>) = issued st"
  "issued (st\<lparr>contexts := c\<rparr>) = issued st"
  "issued (st\<lparr>m_notVisitedMasterNodes := n\<rparr>) = issued st"
  by (simp_all add: issued_def)

lemma clusterConnectToNextMasterNode_keeps [simp]:
  "worker (clusterConnectToNextMasterNode f st) = worker st"
  "issued (clusterConnectToNextMasterNode f st) = issued st"
  by (auto simp: clusterConnectToNextMasterNode_def callAfterConnect_def Let_def
      split: option.splits list.splits)

lemma call_RawKeysListCallback_keeps:
  "worker (state_of (call_RawKeysListCallback f keys err st)) = worker st \<and>
   issued (state_of (call_RawKeysListCallback f keys err st)) = issued st"
  by (cases f) (simp_all add: call_RawKeysListCallback_def state_of_def Let_def)

lemma call_CollectionCallback_keeps:
  "worker (state_of (call_CollectionCallback f c err st)) = worker st \<and>
   issued (state_of (call_CollectionCallback f c err st)) = issued st"
proof (cases f)
  case (getDatabaseKeys_lambda g)
  then show ?thesis
    by (simp add: call_CollectionCallback_def call_RawKeysListCallback_keeps)
qed (simp_all add: call_CollectionCallback_def state_of_def)

text \<open>
  C3, as amended. When the reply to the pending command of a scan chain is an error reply,
  and it is not a disabled-command error for a command named \<open>scan\<close>, the collection
  callback is called once, with the value of the reply as its first argument and the text
  of that value as its second; for a caller's callback this is the one event added. The
  command is taken off the worker's list and no command is issued.
\<close>

theorem scan_error_reply:
  assumes "isErrorMessage r"
    and "\<not> (toLower (getPartAsString cmd 0) = ''scan'' \<and> isDisabledCommandErrorMessage r)"
    and "worker st = cmdWithCallback cmd acc cb incr # pending"
  shows "reply r error st =
           call_CollectionCallback cb (value' r) (toString (value' r)) (st\<lparr>worker := pending\<rparr>) \<and>
         reply r error (st\<lparr>worker := cmdWithCallback cmd acc (UserCollectionCallback u) incr # pending\<rparr>) =
           Inr ((), emit (Call_CollectionCallback u (value' r) (toString (value' r)))
                      (st\<lparr>worker := pending\<rparr>)) \<and>
         worker (state_of (reply r error st)) = pending \<and>
         issued (state_of (reply r error st)) = issued st"
proof -
  have first: "reply r error st =
           call_CollectionCallback cb (value' r) (toString (value' r)) (st\<lparr>worker := pending\<rparr>)"
    using assms by (auto simp: reply_scan scan_callback_def)
  have "reply r error (st\<lparr>worker := cmdWithCallback cmd acc (UserCollectionCallback u) incr # pending\<rparr>) =
           Inr ((), emit (Call_CollectionCallback u (value' r) (toString (value' r)))
                      (st\<lparr>worker := pending\<rparr>))"
    using assms(1,2)
    by (auto simp: reply_def call_Callback_def scan_callback_def call_CollectionCallback_def)
  then show ?thesis
    by (simp add: first call_CollectionCallback_keeps)
qed

text \<open>
  An error reply with the text \<open>ERR wrong type\<close> to the first command of a chain.
\<close>

theorem scan_error_reply_witness:
  "reply (error_reply ''ERR wrong type'' False) []
     (connected_example\<lparr>worker := [cmdWithCallback example_scan [] (UserCollectionCallback 7) False]\<rparr>) =
   Inr ((), emit (Call_CollectionCallback 7 (ByteArray ''ERR wrong type'') ''ERR wrong type'')
              (connected_example\<lparr>worker := []\<rparr>))"
proof -
  have error: "isErrorMessage (error_reply ''ERR wrong type'' False)"
    by (simp add: error_reply_def)
  have other: "\<not> (toLower (getPartAsString example_scan 0) = ''scan'' \<and>
                  isDisabledCommandErrorMessage (error_reply ''ERR wrong type'' False))"
    by (simp add: error_reply_def)
  have pending: "worker (connected_example\<lparr>worker := [cmdWithCallback example_scan []
                    (UserCollectionCallback 7) False]\<rparr>) =
                 cmdWithCallback example_scan [] (UserCollectionCallback 7) False # []"
    by simp
  from scan_error_reply [OF error other pending, of "[]" 7] show ?thesis
    by (simp add: error_reply_def call_CollectionCallback_def)
qed

text \<open>
  C3 as it is stated fails: the first argument that the callback receives for the error
  reply \<open>ERR wrong type\<close> is the value of the reply, not the null value.
\<close>

theorem scan_error_reply_counterexample:
  "calls (state_of (and_then (retrieveCollection example_scan (UserCollectionCallback 7) connected_example)
                (\<lambda>_ st1. replies [(error_reply ''ERR wrong type'' False, [])] st1))) =
     [Call_CollectionCallback 7 (ByteArray ''ERR wrong type'') ''ERR wrong type''] \<and>
   calls (state_of (and_then (retrieveCollection example_scan (UserCollectionCallback 7) connected_example)
                (\<lambda>_ st1. replies [(error_reply ''ERR wrong type'' False, [])] st1))) \<noteq>
     [Call_CollectionCallback 7 Invalid ''ERR wrong type'']"
  by (simp add: scan_eval)

subsection \<open>The substitution of \<^verbatim>\<open>iscan\<close>\<close>

lemma part0_cmdWithCallback [simp]:
  "getPartAsString (cmdWithCallback cmd acc cb incr) 0 = getPartAsString cmd 0"
  by (simp add: getPartAsString_def cmdWithCallback_def)

lemma iscan_not_scan: "toLower ''iscan'' \<noteq> ''scan''"
  by (simp add: toLower_def to_lower_def)

lemma args_cmdWithCallback [simp]: "args (cmdWithCallback cmd acc cb incr) = args cmd"
  by (simp add: cmdWithCallback_def)

text \<open>
  What one reply does to a chain: it goes on with one new command, which keeps the name
  after a reply that is no error and is the substitution after an error reply, or it ends.
\<close>

lemma scan_step:
  assumes "isConnected st" and "args cmd \<noteq> []"
    and "worker st = [cmdWithCallback cmd acc cb incr]"
  shows "(\<exists>cmd' acc' incr' st1.
            reply r e st = Inr ((), st1) \<and> isConnected st1 \<and> args cmd' \<noteq> [] \<and>
            worker st1 = [cmdWithCallback cmd' acc' cb incr'] \<and>
            issued st1 = issued st @ [cmdWithCallback cmd' acc' cb incr'] \<and>
            (\<not> isErrorMessage r \<and> getPartAsString cmd' 0 = getPartAsString cmd 0 \<or>
             toLower (getPartAsString cmd 0) = ''scan'' \<and> isErrorMessage r \<and>
             isDisabledCommandErrorMessage r \<and> args cmd' = (args cmd)[0 := ''iscan'']))
         \<or> (worker (state_of (reply r e st)) = [] \<and> issued (state_of (reply r e st)) = issued st)"
proof -
  have eq: "reply r e st = scan_callback cmd acc cb incr r e (st\<lparr>worker := []\<rparr>)"
    using assms(3) by (rule reply_scan)
  consider (subst) "isErrorMessage r" "toLower (getPartAsString cmd 0) = ''scan''"
        "isDisabledCommandErrorMessage r"
    | (continue) "\<not> isErrorMessage r" "e = []" "isValidScanResponse r" "0 < getCursor r"
    | (stop) "\<not> (isErrorMessage r \<and> toLower (getPartAsString cmd 0) = ''scan'' \<and>
                  isDisabledCommandErrorMessage r)"
        "\<not> (\<not> isErrorMessage r \<and> e = [] \<and> isValidScanResponse r \<and> 0 < getCursor r)"
    by blast
  then show ?thesis
  proof cases
    case subst
    define cmd' where "cmd' = \<lparr>args = (args cmd)[0 := ''iscan''], db = default_db, hiPriority = False\<rparr>"
    have "args cmd' \<noteq> []" and "args cmd' = (args cmd)[0 := ''iscan'']"
      using assms(2) by (simp_all add: cmd'_def)
    moreover have "reply r e st =
        Inr ((), st\<lparr>worker := [], emitted := emitted st @ [Sig_addCommandToWorker (cmdWithCallback cmd' acc cb incr)],
                    worker := [cmdWithCallback cmd' acc cb incr]\<rparr>)"
      unfolding eq using subst assms(1) \<open>args cmd' \<noteq> []\<close>
      by (simp add: scan_callback_def processScanCommand_connected cmd'_def [symmetric] Let_def)
    ultimately show ?thesis
      using subst assms(1) by (intro disjI1 exI [of _ cmd'] exI [of _ acc] exI [of _ incr])
        (auto simp: issued_def)
  next
    case continue
    define cmd' where "cmd' = setCursor cmd (getCursor r)"
    define acc' where "acc' = (if incr then [] else acc) @ getCollection r"
    have "args cmd' \<noteq> []" and "getPartAsString cmd' 0 = getPartAsString cmd 0"
      using assms(2) by (simp_all add: cmd'_def)
    moreover have "reply r e st =
        Inr ((), st\<lparr>worker := [], emitted := emitted st @ [Sig_addCommandToWorker
                       (cmdWithCallback cmd' acc' cb incrementalProcessing_default)],
                    worker := [cmdWithCallback cmd' acc' cb incrementalProcessing_default]\<rparr>)"
      unfolding eq using continue assms(1) \<open>args cmd' \<noteq> []\<close>
      by (simp add: scan_callback_def processScanCommand_connected cmd'_def [symmetric]
          acc'_def Let_def)
    ultimately show ?thesis
      using assms(1) continue(1)
      by (intro disjI1 exI [of _ cmd'] exI [of _ acc'] exI [of _ incrementalProcessing_default])
        (auto simp: issued_def)
  next
    case stop
    then have "\<exists>v t. scan_callback cmd acc cb incr r e (st\<lparr>worker := []\<rparr>) =
                 call_CollectionCallback cb v t (st\<lparr>worker := []\<rparr>)"
      by (auto simp: scan_callback_def Let_def)
    then obtain v t where "reply r e st = call_CollectionCallback cb v t (st\<lparr>worker := []\<rparr>)"
      using eq by auto
    then show ?thesis
      using call_CollectionCallback_keeps [of cb v t "st\<lparr>worker := []\<rparr>"] by simp
  qed
qed

lemma replies_after_end:
  assumes "worker (state_of (reply r e st)) = []"
  shows "state_of (replies ((r, e) # rs) st) = state_of (reply r e st)"
proof (cases "reply r e st")
  case (Inl f)
  then show ?thesis by (simp add: and_then_def state_of_def)
next
  case (Inr x)
  obtain u st1 where x: "x = (u, st1)" by (cases x)
  with Inr assms have "worker st1 = []" by (simp add: state_of_def)
  then have "replies rs st1 = Inr ((), st1)" by (rule replies_idle)
  with Inr x show ?thesis by (simp add: and_then_def state_of_def)
qed

lemma scan_chain_single [simp]: "scan_chain [c] rs" "after_error [c] rs = 0"
  by (cases rs; simp)+

text \<open>
  The chain whose pending command is \<open>cmdWithCallback cmd acc cb incr\<close>, whatever replies
  arrive. A chain whose command is not named \<open>scan\<close> never goes on after an error reply.
\<close>

lemma scan_chain_steps:
  assumes "isConnected st" and "args cmd \<noteq> []"
    and "worker st = [cmdWithCallback cmd acc cb incr]"
  shows "\<exists>ext. issued (state_of (replies rs st)) = issued st @ ext \<and>
               scan_chain (cmdWithCallback cmd acc cb incr # ext) rs \<and>
               after_error (cmdWithCallback cmd acc cb incr # ext) rs \<le> 1 \<and>
               (toLower (getPartAsString cmd 0) \<noteq> ''scan'' \<longrightarrow>
                  after_error (cmdWithCallback cmd acc cb incr # ext) rs = 0)"
  using assms
proof (induction rs arbitrary: st cmd acc incr)
  case Nil
  show ?case
    by (intro exI [of _ "[]"]) (simp add: state_of_def)
next
  case (Cons re rs)
  obtain r e where re: "re = (r, e)" by (cases re)
  define c0 where "c0 = cmdWithCallback cmd acc cb incr"
  from scan_step [OF Cons.prems, of r e] consider
    (goes_on) cmd' acc' incr' st1 where "reply r e st = Inr ((), st1)" "isConnected st1"
      "args cmd' \<noteq> []" "worker st1 = [cmdWithCallback cmd' acc' cb incr']"
      "issued st1 = issued st @ [cmdWithCallback cmd' acc' cb incr']"
      "\<not> isErrorMessage r \<and> getPartAsString cmd' 0 = getPartAsString cmd 0 \<or>
       toLower (getPartAsString cmd 0) = ''scan'' \<and> isErrorMessage r \<and>
       isDisabledCommandErrorMessage r \<and> args cmd' = (args cmd)[0 := ''iscan'']"
    | (ends) "worker (state_of (reply r e st)) = []" "issued (state_of (reply r e st)) = issued st"
    by blast
  then show ?case
  proof cases
    case goes_on
    note step = goes_on(1) and conn = goes_on(2) and ne = goes_on(3) and w = goes_on(4)
      and iss = goes_on(5) and kind = goes_on(6)
    define c1 where "c1 = cmdWithCallback cmd' acc' cb incr'"
    from Cons.IH [OF conn ne w] obtain ext where
      ext: "issued (state_of (replies rs st1)) = issued st1 @ ext"
      and rest: "scan_chain (c1 # ext) rs"
      and once: "after_error (c1 # ext) rs \<le> 1"
      and none: "toLower (getPartAsString cmd' 0) \<noteq> ''scan'' \<Longrightarrow> after_error (c1 # ext) rs = 0"
      unfolding c1_def by blast
    have final: "state_of (replies (re # rs) st) = state_of (replies rs st1)"
      by (simp add: re step and_then_def)
    have all: "issued (state_of (replies (re # rs) st)) = issued st @ (c1 # ext)"
      by (simp add: final ext iss c1_def)
    from kind have "scan_chain (c0 # c1 # ext) (re # rs) \<and>
        after_error (c0 # c1 # ext) (re # rs) \<le> 1 \<and>
        (toLower (getPartAsString cmd 0) \<noteq> ''scan'' \<longrightarrow>
           after_error (c0 # c1 # ext) (re # rs) = 0)"
    proof (elim disjE conjE)
      assume valid: "\<not> isErrorMessage r"
        and same: "getPartAsString cmd' 0 = getPartAsString cmd 0"
      have "getPartAsString c1 0 = getPartAsString c0 0"
        by (simp add: c0_def c1_def same)
      with valid rest once none same show ?thesis
        by (simp add: re)
    next
      assume scan: "toLower (getPartAsString cmd 0) = ''scan''"
        and err: "isErrorMessage r" and dis: "isDisabledCommandErrorMessage r"
        and iscan: "args cmd' = (args cmd)[0 := ''iscan'']"
      have "getPartAsString cmd' 0 = ''iscan''"
        using iscan Cons.prems(2) by (simp add: getPartAsString_def)
      then have "after_error (c1 # ext) rs = 0"
        using none iscan_not_scan by simp
      moreover have "substitution c0 r c1"
        using scan err dis iscan by (simp add: substitution_def c0_def c1_def)
      ultimately show ?thesis
        using err scan rest by (simp add: re)
    qed
    with all show ?thesis
      unfolding c0_def by (intro exI [of _ "c1 # ext"]) simp
  next
    case ends
    have "state_of (replies (re # rs) st) = state_of (reply r e st)"
      unfolding re using ends(1) by (rule replies_after_end)
    with ends(2) show ?thesis
      by (intro exI [of _ "[]"]) simp
  qed
qed

text \<open>
  C5, as amended. Take any chain that \<^verbatim>\<open>processScanCommand\<close> starts on a connection that is up
  and has nothing else pending, and any replies. The chain begins with the given command.
  A command that was issued after an error reply is the substitution: the command that
  received the reply is named \<open>scan\<close> in any case, the reply is a disabled-command error, and
  the new command has \<open>iscan\<close> in the place of the name. A command that was issued after
  another reply has the name of the command before it. At most one command of the chain
  was issued after an error reply; since the name is \<open>iscan\<close> after the substitution, an
  error reply to \<open>iscan\<close> is followed by no command. The reply before the substitution
  need not be the first reply of the chain.
\<close>

theorem scan_substitution:
  assumes "isConnected st" and "worker st = []"
    and "cmds = chain st (state_of (and_then (processScanCommand cmd cb None incr st)
                                      (\<lambda>_ st1. replies rs st1)))"
  shows "map args (take 1 cmds) = (if args cmd = [] then [] else [args cmd]) \<and>
         scan_chain cmds rs \<and> after_error cmds rs \<le> 1"
proof (cases "args cmd = []")
  case True
  then have "processScanCommand cmd cb None incr st = Inl (Exception ''Command is not valid'', st)"
    by (simp add: processScanCommand_def runCommand_def isValid_def cmdWithCallback_def
        and_then_def)
  then show ?thesis
    using True by (simp add: assms(3) and_then_def state_of_def chain_def)
next
  case False
  define c0 where "c0 = cmdWithCallback cmd [] cb incr"
  define st0 where "st0 = st\<lparr>emitted := emitted st @ [Sig_addCommandToWorker c0], worker := [c0]\<rparr>"
  have start: "processScanCommand cmd cb None incr st = Inr ((), st0)"
    using assms(1,2) False by (simp add: processScanCommand_connected st0_def c0_def)
  have "isConnected st0" and "worker st0 = [cmdWithCallback cmd [] cb incr]"
    and iss: "issued st0 = issued st @ [c0]"
    using assms(1) by (simp_all add: st0_def c0_def issued_def)
  from scan_chain_steps [OF this(1) False this(2), of rs] obtain ext where
    ext: "issued (state_of (replies rs st0)) = issued st0 @ ext"
    and steps: "scan_chain (c0 # ext) rs" and once: "after_error (c0 # ext) rs \<le> 1"
    unfolding c0_def by blast
  have "cmds = c0 # ext"
    by (simp add: assms(3) start and_then_def chain_def ext iss)
  with steps once False show ?thesis
    by (simp add: c0_def)
qed

lemmas chain_eval = scan_eval chain_def substitution_def

text \<open>
  The fallback of the specification's scenario: a disabled-command error to \<^verbatim>\<open>SCAN\<close>, then a
  valid reply to \<^verbatim>\<open>iscan\<close>. The second command is the substitution.
\<close>

theorem scan_substitution_witness:
  "isConnected connected_example \<and> worker connected_example = [] \<and>
   map args
     (chain connected_example
        (state_of (and_then (processScanCommand example_scan (UserCollectionCallback 7) None False
                               connected_example)
                     (\<lambda>_ st1. replies [(error_reply ''ERR unknown command'' True, []),
                                        (scan_reply 0 [''x''], [])] st1))))
     = [[''SCAN'', ''0'', ''MATCH'', ''*'', ''COUNT'', ''100''],
        [''iscan'', ''0'', ''MATCH'', ''*'', ''COUNT'', ''100'']] \<and>
   scan_chain
     (chain connected_example
        (state_of (and_then (processScanCommand example_scan (UserCollectionCallback 7) None False
                               connected_example)
                     (\<lambda>_ st1. replies [(error_reply ''ERR unknown command'' True, []),
                                        (scan_reply 0 [''x''], [])] st1))))
     [(error_reply ''ERR unknown command'' True, []), (scan_reply 0 [''x''], [])] \<and>
   after_error
     (chain connected_example
        (state_of (and_then (processScanCommand example_scan (UserCollectionCallback 7) None False
                               connected_example)
                     (\<lambda>_ st1. replies [(error_reply ''ERR unknown command'' True, []),
                                        (scan_reply 0 [''x''], [])] st1))))
     [(error_reply ''ERR unknown command'' True, []), (scan_reply 0 [''x''], [])] \<le> 1"
proof -
  have commands: "map args
     (chain connected_example
        (state_of (and_then (processScanCommand example_scan (UserCollectionCallback 7) None False
                               connected_example)
                     (\<lambda>_ st1. replies [(error_reply ''ERR unknown command'' True, []),
                                        (scan_reply 0 [''x''], [])] st1))))
     = [[''SCAN'', ''0'', ''MATCH'', ''*'', ''COUNT'', ''100''],
        [''iscan'', ''0'', ''MATCH'', ''*'', ''COUNT'', ''100'']]"
    by (simp add: chain_eval)
  from scan_substitution [OF connected_example_facts(1,2) refl, of example_scan
      "UserCollectionCallback 7" False
      "[(error_reply ''ERR unknown command'' True, []), (scan_reply 0 [''x''], [])]"]
  show ?thesis
    by (simp only: commands connected_example_facts(1,2) simp_thms)
qed

text \<open>
  C5 as it is stated fails: here the first reply of the chain is a valid scan reply with
  cursor 5, the second is a disabled-command error, and the third command of the chain is
  the substitution.
\<close>

theorem scan_substitution_counterexample:
  "map (\<lambda>c. getPartAsString c 0)
     (chain connected_example
        (state_of (and_then (processScanCommand example_scan (UserCollectionCallback 7) None False
                               connected_example)
                     (\<lambda>_ st1. replies [(scan_reply 5 [''a''], []),
                                        (error_reply ''ERR unknown command'' True, []),
                                        (scan_reply 0 [''b''], [])] st1))))
     = [''SCAN'', ''SCAN'', ''iscan''] \<and>
   \<not> isErrorMessage (scan_reply 5 [''a'']) \<and>
   substitution
     (chain connected_example
        (state_of (and_then (processScanCommand example_scan (UserCollectionCallback 7) None False
                               connected_example)
                     (\<lambda>_ st1. replies [(scan_reply 5 [''a''], []),
                                        (error_reply ''ERR unknown command'' True, []),
                                        (scan_reply 0 [''b''], [])] st1))) ! 1)
     (error_reply ''ERR unknown command'' True)
     (chain connected_example
        (state_of (and_then (processScanCommand example_scan (UserCollectionCallback 7) None False
                               connected_example)
                     (\<lambda>_ st1. replies [(scan_reply 5 [''a''], []),
                                        (error_reply ''ERR unknown command'' True, []),
                                        (scan_reply 0 [''b''], [])] st1))) ! 2)"
  by (simp add: chain_eval)

section \<open>Properties of \<^verbatim>\<open>auth\<close>\<close>

subsection \<open>The sentinel's redirect\<close>

lemma internalCommandSync_connected:
  "isConnected st \<Longrightarrow> rawCmd \<noteq> [] \<Longrightarrow>
   internalCommandSync srv rawCmd st =
     Inr (srv rawCmd, emit (Sig_addCommandToWorker (internalCommand rawCmd)) st)"
  by (simp add: internalCommandSync_def commandSync_def runCommand_def internalCommand_def
      isValid_def and_then_def emit_def addCommandToWorker_def cancel_when_destroyed_def)

lemma isConnected_emit [simp]: "isConnected (emit e st) = isConnected st"
  by (simp add: emit_def)

lemma isConnected_more_updates [simp]:
  "isConnected (st\<lparr>m_serverInfo := i\<rparr>) = isConnected st"
  "isConnected (st\<lparr>m_currentMode := m\<rparr>) = isConnected st"
  by (simp_all add: isConnected_def isTransporterRunning_def)

lemma m_config_emit [simp]: "m_config (emit e st) = m_config st"
  by (simp add: emit_def)

lemma sentinel_not_cluster: "sentinelMode (fromString info) \<Longrightarrow> \<not> clusterMode (fromString info)"
  by (auto simp: fromString_def ServerInfo_new_def Let_def split: option.splits if_splits)

lemma refreshServerInfo_connected:
  "isConnected st \<Longrightarrow>
   refreshServerInfo srv st =
     Inr ((), (emit (Sig_addCommandToWorker (internalCommand [''INFO'', ''ALL''])) st)
                \<lparr>m_serverInfo := fromString (toString (value' (srv [''INFO'', ''ALL''])))\<rparr>)"
  by (simp add: refreshServerInfo_def internalCommandSync_connected and_then_def)

lemma auth_sentinel_connected:
  assumes "isConnected st"
    and "isArray (srv [''SENTINEL'', ''masters''])"
    and "toList (value' (srv [''SENTINEL'', ''masters''])) = first # others"
    and "6 \<le> length (toStringList first)"
  shows "auth_sentinel srv st =
     Inr ((), emit (Sig_reconnectTo
                      (if \<not> useSshTunnel (m_config st) \<and>
                          (toStringList first ! 3 = ''127.0.0.1'' \<or> toStringList first ! 3 = ''localhost'')
                       then host (m_config st) else toStringList first ! 3)
                      (toInt (toStringList first ! 5)))
                (emit (Sig_addCommandToWorker (internalCommand [''SENTINEL'', ''masters''])) st))"
  using assms
  by (simp add: auth_sentinel_def internalCommandSync_connected and_then_def Let_def)

text \<open>
  C6. \<open>auth\<close> runs on a connection that is up; the server answers \<^verbatim>\<open>PING\<close> with \<open>PONG\<close>, its
  \<^verbatim>\<open>INFO\<close> text names the sentinel mode, and \<^verbatim>\<open>SENTINEL masters\<close> returns an array whose first
  entry has at least 6 fields. Then \<open>auth\<close> returns, the mode is \<open>Sentinel\<close>, and the last
  event is \<^verbatim>\<open>reconnectTo(host, port)\<close> with the port read from field 5 and the host from field
  3, except that the configured host is taken when field 3 is \<open>127.0.0.1\<close> or \<open>localhost\<close>
  and no SSH tunnel is used. \<^verbatim>\<open>authOk\<close> is not among the events that \<open>auth\<close> adds.
\<close>

theorem auth_sentinel_redirect:
  assumes "isConnected st"
    and "toByteArray (value' (srv [''PING''])) = ''PONG''"
    and "sentinelMode (fromString (toString (value' (srv [''INFO'', ''ALL'']))))"
    and "isArray (srv [''SENTINEL'', ''masters''])"
    and "toList (value' (srv [''SENTINEL'', ''masters''])) = first # others"
    and "6 \<le> length (toStringList first)"
  shows "auth srv st =
     Inr ((), st\<lparr>m_serverInfo := fromString (toString (value' (srv [''INFO'', ''ALL'']))),
                  m_currentMode := Sentinel,
                  emitted := emitted st @ [Sig_log ''AUTH''] @
                    (if useAuth (m_config st)
                     then [Sig_addCommandToWorker (internalCommand [''AUTH'', authPassword (m_config st)])]
                     else []) @
                    [Sig_addCommandToWorker (internalCommand [''PING'']),
                     Sig_addCommandToWorker (internalCommand [''INFO'', ''ALL'']),
                     Sig_log ''Sentinel detected. Requesting master node...'',
                     Sig_addCommandToWorker (internalCommand [''SENTINEL'', ''masters'']),
                     Sig_reconnectTo
                       (if \<not> useSshTunnel (m_config st) \<and>
                           (toStringList first ! 3 = ''127.0.0.1'' \<or>
                            toStringList first ! 3 = ''localhost'')
                        then host (m_config st) else toStringList first ! 3)
                       (toInt (toStringList first ! 5))]\<rparr>) \<and>
         Sig_authOk \<notin> set (drop (length (emitted st)) (emitted (state_of (auth srv st))))"
proof -
  define st1 where "st1 = emit (Sig_log ''AUTH'') st"
  define st2 where "st2 = (if useAuth (m_config st)
      then emit (Sig_addCommandToWorker (internalCommand [''AUTH'', authPassword (m_config st)])) st1
      else st1)"
  define st3 where "st3 = emit (Sig_addCommandToWorker (internalCommand [''PING''])) st2"
  define st4 where "st4 = (emit (Sig_addCommandToWorker (internalCommand [''INFO'', ''ALL''])) st3)
                \<lparr>m_serverInfo := fromString (toString (value' (srv [''INFO'', ''ALL''])))\<rparr>"
  define st5 where "st5 = emit (Sig_log ''Sentinel detected. Requesting master node...'')
                             (st4\<lparr>m_currentMode := Sentinel\<rparr>)"
  have c1: "isConnected st1" and c2: "isConnected st2" and c3: "isConnected st3"
    and c4: "isConnected st4" and c5: "isConnected st5"
    using assms(1) by (simp_all add: st1_def st2_def st3_def st4_def st5_def)
  have cfg: "m_config st5 = m_config st"
    by (simp add: st1_def st2_def st3_def st4_def st5_def)
  have not_cluster: "\<not> clusterMode (fromString (toString (value' (srv [''INFO'', ''ALL'']))))"
    using assms(3) by (rule sentinel_not_cluster)
  have first_step: "(if useAuth (m_config st1)
        then and_then (internalCommandSync srv [''AUTH'', authPassword (m_config st1)] st1)
               (\<lambda>_ st1. Inr ((), st1))
        else Inr ((), st1)) = Inr ((), st2)"
    using c1 by (simp add: st2_def internalCommandSync_connected and_then_def st1_def)
  have ping: "internalCommandSync srv [''PING''] st2 = Inr (srv [''PING''], st3)"
    using c2 by (simp add: internalCommandSync_connected st3_def)
  have info: "refreshServerInfo srv st3 = Inr ((), st4)"
    using c3 by (simp add: refreshServerInfo_connected st4_def)
  have flags: "\<not> clusterMode (m_serverInfo st4)" "sentinelMode (m_serverInfo st4)"
    using not_cluster assms(3) by (simp_all add: st4_def)
  have body: "auth_try srv st1 = auth_sentinel srv st5"
    unfolding auth_try_def first_step
    by (simp add: and_then_def ping assms(2) info flags st5_def)
  have "auth srv st = auth_sentinel srv st5"
    using auth_sentinel_connected [of st5 srv first others] c5 assms(4-6)
    by (simp add: auth_def body st1_def [symmetric])
  also have "\<dots> = Inr ((), emit (Sig_reconnectTo
                      (if \<not> useSshTunnel (m_config st) \<and>
                          (toStringList first ! 3 = ''127.0.0.1'' \<or> toStringList first ! 3 = ''localhost'')
                       then host (m_config st) else toStringList first ! 3)
                      (toInt (toStringList first ! 5)))
                (emit (Sig_addCommandToWorker (internalCommand [''SENTINEL'', ''masters''])) st5))"
    using auth_sentinel_connected [of st5 srv first others] c5 assms(4-6) by (simp add: cfg)
  finally have result: "auth srv st = Inr ((), emit (Sig_reconnectTo
                      (if \<not> useSshTunnel (m_config st) \<and>
                          (toStringList first ! 3 = ''127.0.0.1'' \<or> toStringList first ! 3 = ''localhost'')
                       then host (m_config st) else toStringList first ! 3)
                      (toInt (toStringList first ! 5)))
                (emit (Sig_addCommandToWorker (internalCommand [''SENTINEL'', ''masters''])) st5))" .
  show ?thesis
    unfolding result
    by (simp add: st5_def st4_def st3_def st2_def st1_def emit_def state_of_def)
qed

text \<open>
  The sentinel that reports its master at \<open>127.0.0.1:6380\<close>, without a tunnel: the
  connection is told to reconnect to the configured host.
\<close>

theorem auth_sentinel_redirect_witness:
  "emitted (state_of (auth sentinel_server connected_example)) =
     [Sig_log ''AUTH'',
      Sig_addCommandToWorker (internalCommand [''PING'']),
      Sig_addCommandToWorker (internalCommand [''INFO'', ''ALL'']),
      Sig_log ''Sentinel detected. Requesting master node...'',
      Sig_addCommandToWorker (internalCommand [''SENTINEL'', ''masters'']),
      Sig_reconnectTo ''db.example.com'' 6380]"
proof -
  have ping: "toByteArray (value' (sentinel_server [''PING''])) = ''PONG''"
    by (simp add: sentinel_server_def value_reply_def)
  have mode: "sentinelMode (fromString (toString (value' (sentinel_server [''INFO'', ''ALL'']))))"
    by (simp add: sentinel_server_def value_reply_def fromString_eval)
  have array: "isArray (sentinel_server [''SENTINEL'', ''masters''])"
    by (simp add: sentinel_server_def array_reply_def)
  have masters: "toList (value' (sentinel_server [''SENTINEL'', ''masters''])) =
      List (map ByteArray [''name'', ''mymaster'', ''ip'', ''127.0.0.1'', ''port'', ''6380'']) # []"
    by (simp add: sentinel_server_def array_reply_def)
  have fields: "6 \<le> length (toStringList
      (List (map ByteArray [''name'', ''mymaster'', ''ip'', ''127.0.0.1'', ''port'', ''6380''])))"
    by simp
  have port: "toInt ''6380'' = 6380"
    by (simp add: toInt_def is_space_def is_digit_def digits_value_def digit_value_def Let_def)
  from auth_sentinel_redirect [of connected_example sentinel_server, OF connected_example_facts(1)
      ping mode array masters fields]
  show ?thesis
    by (simp add: state_of_def port connected_example_facts)
      (simp add: connected_example_def Connection_new_def example_config_def)
qed

subsection \<open>Commands deferred until the connection is up\<close>

lemma call_runCommand_lambda_ok:
  "isConnected st \<Longrightarrow> isValid cmd \<Longrightarrow>
   call_contexts [runCommand_lambda cmd d] [] st =
     Inr ((), (addCommandToWorker cmd (cancel_when_destroyed cmd st))
                \<lparr>deferreds := (deferreds (addCommandToWorker cmd (cancel_when_destroyed cmd st)))
                                (d := Following (future_of cmd))\<rparr>)"
  by (simp add: call_ConnectCallback_def runCommand_connected and_then_def)

lemma call_runCommand_lambda_error:
  "err \<noteq> [] \<Longrightarrow>
   call_contexts [runCommand_lambda cmd d] err st =
     Inr ((), st\<lparr>deferreds := (deferreds st)(d := Cancelled)\<rparr>)"
  by (simp add: call_ConnectCallback_def and_then_def)

lemma projections_addCommandToWorker [simp]:
  "deferreds (addCommandToWorker cmd st) = deferreds st"
  "worker (addCommandToWorker cmd st) = worker st @ [cmd]"
  "contexts (addCommandToWorker cmd st) = contexts st"
  "emitted (addCommandToWorker cmd st) = emitted st @ [Sig_addCommandToWorker cmd]"
  "isConnected (addCommandToWorker cmd st) = isConnected st"
  by (simp_all add: addCommandToWorker_def emit_def isConnected_def isTransporterRunning_def)

lemma projections_cancel_when_destroyed [simp]:
  "deferreds (cancel_when_destroyed cmd st) = deferreds st"
  "worker (cancel_when_destroyed cmd st) = worker st"
  "contexts (cancel_when_destroyed cmd st) = contexts st"
  "emitted (cancel_when_destroyed cmd st) = emitted st"
  "isConnected (cancel_when_destroyed cmd st) = isConnected st"
  by (simp_all add: cancel_when_destroyed_def isConnected_def isTransporterRunning_def
      split: option.splits Owner.splits)

lemma projections_emit [simp]:
  "deferreds (emit e st) = deferreds st"
  "contexts (emit e st) = contexts st"
  "emitted (emit e st) = emitted st @ [e]"
  by (simp_all add: emit_def)

lemma projections_disconnect [simp]:
  "deferreds (disconnect st) = deferreds st"
  "contexts (disconnect st) = contexts st"
  "emitted (disconnect st) = emitted st @ [Sig_shutdownStart]"
  "worker st = [] \<Longrightarrow> worker (disconnect st) = []"
  by (simp_all add: disconnect_def Let_def)

text \<open>The four ways in which the body of \<open>auth\<close> goes on after \<^verbatim>\<open>PING\<close>.\<close>

lemma auth_try_connected:
  fixes srv :: "string list \<Rightarrow> Response" and st :: Connection
  assumes "isConnected st"
  defines "st2 \<equiv> (if useAuth (m_config st)
      then emit (Sig_addCommandToWorker (internalCommand [''AUTH'', authPassword (m_config st)])) st
      else st)"
  defines "st3 \<equiv> emit (Sig_addCommandToWorker (internalCommand [''PING''])) st2"
  defines "st4 \<equiv> (emit (Sig_addCommandToWorker (internalCommand [''INFO'', ''ALL''])) st3)
                \<lparr>m_serverInfo := fromString (toString (value' (srv [''INFO'', ''ALL''])))\<rparr>"
  shows "auth_try srv st =
     (if toByteArray (value' (srv [''PING''])) \<noteq> ''PONG'' then
        emit_error ''AUTH ERROR''
          (emit_authError ''Redis server requires password or password is not valid'' st3)
      else if clusterMode (fromString (toString (value' (srv [''INFO'', ''ALL''])))) then
        auth_connected (emit (Sig_log ''Cluster detected'') (st4\<lparr>m_currentMode := Cluster\<rparr>))
      else if sentinelMode (fromString (toString (value' (srv [''INFO'', ''ALL''])))) then
        auth_sentinel srv (emit (Sig_log ''Sentinel detected. Requesting master node...'')
                             (st4\<lparr>m_currentMode := Sentinel\<rparr>))
      else auth_connected st4)"
proof -
  have c2: "isConnected st2" and c3: "isConnected st3"
    using assms(1) by (simp_all add: st2_def st3_def)
  have first_step: "(if useAuth (m_config st)
        then and_then (internalCommandSync srv [''AUTH'', authPassword (m_config st)] st)
               (\<lambda>_ st1. Inr ((), st1))
        else Inr ((), st)) = Inr ((), st2)"
    using assms(1) by (simp add: st2_def internalCommandSync_connected and_then_def)
  have ping: "internalCommandSync srv [''PING''] st2 = Inr (srv [''PING''], st3)"
    using c2 by (simp add: internalCommandSync_connected st3_def)
  have info: "refreshServerInfo srv st3 = Inr ((), st4)"
    using c3 by (simp add: refreshServerInfo_connected st4_def)
  show ?thesis
    unfolding auth_try_def first_step
    by (simp add: and_then_def ping info) (simp add: st4_def)
qed

lemma runCommand_fresh:
  assumes "isValid cmd" and "isValid_config c" and "useSshTunnel c \<longrightarrow> ssh"
  shows "runCommand cmd (Connection_new c True ssh a b) =
     Inr (deferred_future 0,
          (Connection_new c True ssh a b)
            \<lparr>next_deferred := 1, contexts := [runCommand_lambda cmd 0],
             m_transporter := Some (if useSshTunnel c then SshTransporter else DefaultTransporter),
             m_transporterThread := Some True, authError_connections := 1\<rparr>)"
  using assms
  by (auto simp: runCommand_def Connection_new_def isConnected_def isTransporterRunning_def
      callAfterConnect_def connect_def createTransporter_def and_then_def Let_def fun_upd_idem)

lemma emit_error_awaiting:
  assumes "contexts st = [runCommand_lambda cmd d]" and "err \<noteq> []"
  shows "emit_error err st =
     Inr ((), (emit (Sig_error err) (st\<lparr>contexts := []\<rparr>))\<lparr>deferreds := (deferreds st)(d := Cancelled)\<rparr>)"
  unfolding emit_error_def assms(1)
  by (simp add: call_runCommand_lambda_error [OF assms(2)] del: call_contexts.simps)

lemma emit_authOk_awaiting:
  assumes "contexts st = [runCommand_lambda cmd d]" and "isConnected st" and "isValid cmd"
  shows "emit_authOk st =
     Inr ((), (addCommandToWorker cmd (cancel_when_destroyed cmd (emit Sig_authOk (st\<lparr>contexts := []\<rparr>))))
                \<lparr>deferreds := (deferreds st)(d := Following (future_of cmd))\<rparr>)"
proof -
  have "isConnected (emit Sig_authOk (st\<lparr>contexts := []\<rparr>))"
    using assms(2) by simp
  from call_runCommand_lambda_ok [OF this assms(3), of d] show ?thesis
    unfolding emit_authOk_def assms(1) by simp
qed

lemma projections_disconnects [simp]:
  "deferreds ((disconnect ^^ n) st) = deferreds st"
  "contexts ((disconnect ^^ n) st) = contexts st"
  "emitted ((disconnect ^^ n) st) = emitted st @ replicate n Sig_shutdownStart"
  "worker st = [] \<Longrightarrow> worker ((disconnect ^^ n) st) = []"
  by (induction n) (simp_all add: replicate_append_same)

lemma not_connected_disconnect [simp]:
  "isConnected (disconnect st) = False"
  by (auto simp: disconnect_def isConnected_def isTransporterRunning_def Let_def emit_def)

lemma worker_disconnect_idle [simp]: "worker st = [] \<Longrightarrow> worker (disconnect st) = []"
  by (simp add: disconnect_def Let_def)

lemma auth_connected_awaiting:
  assumes "contexts st = [runCommand_lambda cmd d]" and "isConnected st" and "isValid cmd"
  shows "auth_connected st =
     Inr ((), emit Sig_connected
       ((addCommandToWorker cmd (cancel_when_destroyed cmd
            (emit Sig_authOk ((emit (Sig_log ''Connected'') st)\<lparr>contexts := []\<rparr>))))
          \<lparr>deferreds := (deferreds st)(d := Following (future_of cmd))\<rparr>))"
proof -
  have "contexts (emit (Sig_log ''Connected'') st) = [runCommand_lambda cmd d]"
    and "isConnected (emit (Sig_log ''Connected'') st)"
    using assms by simp_all
  from emit_authOk_awaiting [OF this assms(3)] show ?thesis
    by (simp add: auth_connected_def and_then_def)
qed

lemma outcome_values [simp]:
  "auth_outcome (es @ [Sig_authOk, e]) = Succeeded"
  "\<not> list_ex is_error es \<Longrightarrow> Sig_authOk \<notin> set es \<Longrightarrow> auth_outcome (es @ [Sig_error err]) = Failed"
  by (simp_all add: auth_outcome_def)


lemma auth_sentinel_cases:
  fixes srv :: "string list \<Rightarrow> Response"
  assumes "isConnected st"
  defines "t \<equiv> emit (Sig_addCommandToWorker (internalCommand [''SENTINEL'', ''masters''])) st"
  shows "(\<exists>err. err \<noteq> [] \<and> auth_sentinel srv st = emit_error err t) \<or>
         (\<exists>h p. auth_sentinel srv st = Inr ((), emit (Sig_reconnectTo h p) t))"
proof -
  have eq: "auth_sentinel srv st =
      (if \<not> isArray (srv [''SENTINEL'', ''masters''])
          then emit_error ''Connection error: cannot retrive master node from sentinel'' t
          else
            (let result = toList (value' (srv [''SENTINEL'', ''masters'']))
             in if length result = 0
                then emit_error ''Connection error: invalid response from sentinel'' t
                else
                  (let masterInfo = toStringList (result ! 0)
                   in if length masterInfo < 6
                      then emit_error ''Connection error: invalid response from sentinel'' t
                      else
                        (let host0 = masterInfo ! 3;
                             host1 = (if \<not> useSshTunnel (m_config t) \<and>
                                         (host0 = ''127.0.0.1'' \<or> host0 = ''localhost'')
                                      then host (m_config t) else host0)
                         in Inr ((), emit (Sig_reconnectTo host1 (toInt (masterInfo ! 5))) t)))))"
    using assms(1) unfolding t_def
    by (simp add: auth_sentinel_def internalCommandSync_connected and_then_def)
  have e1: "''Connection error: cannot retrive master node from sentinel'' \<noteq> []"
    and e2: "''Connection error: invalid response from sentinel'' \<noteq> []"
    by simp_all
  show ?thesis
  proof (cases "isArray (srv [''SENTINEL'', ''masters''])")
    case False
    then have "auth_sentinel srv st =
        emit_error ''Connection error: cannot retrive master node from sentinel'' t"
      by (simp add: eq)
    with e1 show ?thesis by blast
  next
    case True
    show ?thesis
    proof (cases "length (toList (value' (srv [''SENTINEL'', ''masters'']))) = 0 \<or>
        length (toStringList (toList (value' (srv [''SENTINEL'', ''masters''])) ! 0)) < 6")
      case bad: True
      with True have "auth_sentinel srv st =
          emit_error ''Connection error: invalid response from sentinel'' t"
        by (auto simp: eq Let_def)
      with e2 show ?thesis by blast
    next
      case good: False
      with True have "auth_sentinel srv st = Inr ((), emit (Sig_reconnectTo
          (if \<not> useSshTunnel (m_config t) \<and>
              (toStringList (toList (value' (srv [''SENTINEL'', ''masters''])) ! 0) ! 3 = ''127.0.0.1'' \<or>
               toStringList (toList (value' (srv [''SENTINEL'', ''masters''])) ! 0) ! 3 = ''localhost'')
           then host (m_config t)
           else toStringList (toList (value' (srv [''SENTINEL'', ''masters''])) ! 0) ! 3)
          (toInt (toStringList (toList (value' (srv [''SENTINEL'', ''masters''])) ! 0) ! 5))) t)"
        by (simp add: eq Let_def)
      then show ?thesis by blast
    qed
  qed
qed

lemma auth_round:
  fixes srv :: "string list \<Rightarrow> Response"
  assumes valid: "isValid cmd" and waiting: "awaiting_connect cmd d s"
  shows "deferreds (state_of (auth srv s)) d =
           (case auth_outcome (drop (length (emitted s)) (emitted (state_of (auth srv s)))) of
              Succeeded \<Rightarrow> Following (future_of cmd)
            | Failed \<Rightarrow> Cancelled
            | Redirected \<Rightarrow> Pending) \<and>
         worker (state_of (auth srv s)) =
           (if auth_outcome (drop (length (emitted s)) (emitted (state_of (auth srv s)))) = Succeeded
            then [cmd] else []) \<and>
         awaiting_connect cmd d (state_of (auth srv s)) =
           (auth_outcome (drop (length (emitted s)) (emitted (state_of (auth srv s)))) = Redirected)"
proof -
  from waiting have ctx: "contexts s = [runCommand_lambda cmd d]" and conn: "isConnected s"
    and pending: "deferreds s d = Pending" and idle: "worker s = []"
    by (simp_all add: awaiting_connect_def)
  define s1 where "s1 = emit (Sig_log ''AUTH'') s"
  define s2 where "s2 = (if useAuth (m_config s1)
      then emit (Sig_addCommandToWorker (internalCommand [''AUTH'', authPassword (m_config s1)])) s1
      else s1)"
  define s3 where "s3 = emit (Sig_addCommandToWorker (internalCommand [''PING''])) s2"
  define s4 where "s4 = (emit (Sig_addCommandToWorker (internalCommand [''INFO'', ''ALL''])) s3)
                \<lparr>m_serverInfo := fromString (toString (value' (srv [''INFO'', ''ALL''])))\<rparr>"
  have conn1: "isConnected s1" by (simp add: s1_def conn)
  have body: "auth_try srv s1 =
     (if toByteArray (value' (srv [''PING''])) \<noteq> ''PONG'' then
        emit_error ''AUTH ERROR''
          (emit_authError ''Redis server requires password or password is not valid'' s3)
      else if clusterMode (fromString (toString (value' (srv [''INFO'', ''ALL''])))) then
        auth_connected (emit (Sig_log ''Cluster detected'') (s4\<lparr>m_currentMode := Cluster\<rparr>))
      else if sentinelMode (fromString (toString (value' (srv [''INFO'', ''ALL''])))) then
        auth_sentinel srv (emit (Sig_log ''Sentinel detected. Requesting master node...'')
                             (s4\<lparr>m_currentMode := Sentinel\<rparr>))
      else auth_connected s4)"
    unfolding s4_def s3_def s2_def by (rule auth_try_connected [OF conn1])
  have auth_eq: "auth srv s =
      (case auth_try srv s1 of
        Inl (e, st1) \<Rightarrow>
          (case caught e of
             Some what \<Rightarrow>
               and_then (emit_error (''Connection error on AUTH: '' @ what) st1)
                 (\<lambda>_ st2. Inr ((), emit_authError ''Connection error on AUTH'' st2))
           | None \<Rightarrow> Inl (e, st1))
      | Inr r \<Rightarrow> Inr r)"
    by (simp add: auth_def s1_def)
  have facts:
    "contexts s3 = [runCommand_lambda cmd d]" "contexts s4 = [runCommand_lambda cmd d]"
    "isConnected s3" "isConnected s4" "deferreds s3 d = Pending" "deferreds s4 d = Pending"
    "worker s3 = []" "worker s4 = []"
    using ctx conn pending idle by (simp_all add: s4_def s3_def s2_def s1_def)
  define new3 where "new3 = Sig_log ''AUTH'' #
      (if useAuth (m_config s)
       then [Sig_addCommandToWorker (internalCommand [''AUTH'', authPassword (m_config s)])]
       else []) @ [Sig_addCommandToWorker (internalCommand [''PING''])]"
  define new4 where "new4 = new3 @ [Sig_addCommandToWorker (internalCommand [''INFO'', ''ALL''])]"
  have new3: "emitted s3 = emitted s @ new3" "Sig_authOk \<notin> set new3"
      "\<not> list_ex is_error new3"
    by (simp_all add: new3_def s3_def s2_def s1_def)
  have new4: "emitted s4 = emitted s @ new4" "Sig_authOk \<notin> set new4"
      "\<not> list_ex is_error new4"
    using new3 by (simp_all add: new4_def s4_def)
  consider (ping) "toByteArray (value' (srv [''PING''])) \<noteq> ''PONG''"
    | (cluster) "toByteArray (value' (srv [''PING''])) = ''PONG''"
        "clusterMode (fromString (toString (value' (srv [''INFO'', ''ALL'']))))"
    | (sentinel) "toByteArray (value' (srv [''PING''])) = ''PONG''"
        "\<not> clusterMode (fromString (toString (value' (srv [''INFO'', ''ALL'']))))"
        "sentinelMode (fromString (toString (value' (srv [''INFO'', ''ALL'']))))"
    | (plain) "toByteArray (value' (srv [''PING''])) = ''PONG''"
        "\<not> clusterMode (fromString (toString (value' (srv [''INFO'', ''ALL'']))))"
        "\<not> sentinelMode (fromString (toString (value' (srv [''INFO'', ''ALL'']))))"
    by blast
  then show ?thesis
  proof cases
    case ping
    define t where "t = emit_authError ''Redis server requires password or password is not valid'' s3"
    have t: "contexts t = [runCommand_lambda cmd d]" "worker t = []"
      "deferreds t d = Pending"
      "emitted t = emitted s @ new3 @
         Sig_authError ''Redis server requires password or password is not valid'' #
         replicate (authError_connections s3) Sig_shutdownStart"
      using facts new3 by (simp_all add: t_def emit_authError_def)
    have "auth srv s = Inr ((), (emit (Sig_error ''AUTH ERROR'') (t\<lparr>contexts := []\<rparr>))
                                   \<lparr>deferreds := (deferreds t)(d := Cancelled)\<rparr>)"
      using ping emit_error_awaiting [OF t(1), of "''AUTH ERROR''"]
      by (simp add: auth_eq body t_def [symmetric])
    then show ?thesis
      using t new3 by (simp add: state_of_def auth_outcome_def awaiting_connect_def)
  next
    case cluster
    define t where "t = emit (Sig_log ''Cluster detected'') (s4\<lparr>m_currentMode := Cluster\<rparr>)"
    have t: "contexts t = [runCommand_lambda cmd d]" "isConnected t" "worker t = []"
      "emitted t = emitted s @ new4 @ [Sig_log ''Cluster detected'']"
      using facts new4 by (simp_all add: t_def)
    have "auth srv s = Inr ((), emit Sig_connected
       ((addCommandToWorker cmd (cancel_when_destroyed cmd
            (emit Sig_authOk ((emit (Sig_log ''Connected'') t)\<lparr>contexts := []\<rparr>))))
          \<lparr>deferreds := (deferreds t)(d := Following (future_of cmd))\<rparr>))"
      using cluster auth_connected_awaiting [OF t(1,2) valid]
      by (simp add: auth_eq body t_def [symmetric])
    then show ?thesis
      using t new4 by (simp add: state_of_def auth_outcome_def awaiting_connect_def)
  next
    case plain
    have "auth srv s = Inr ((), emit Sig_connected
       ((addCommandToWorker cmd (cancel_when_destroyed cmd
            (emit Sig_authOk ((emit (Sig_log ''Connected'') s4)\<lparr>contexts := []\<rparr>))))
          \<lparr>deferreds := (deferreds s4)(d := Following (future_of cmd))\<rparr>))"
      using plain auth_connected_awaiting [OF facts(2) facts(4) valid]
      by (simp add: auth_eq body)
    then show ?thesis
      using facts new4 by (simp add: state_of_def auth_outcome_def awaiting_connect_def)
  next
    case sentinel
    define t where "t = emit (Sig_addCommandToWorker (internalCommand [''SENTINEL'', ''masters'']))
         (emit (Sig_log ''Sentinel detected. Requesting master node...'')
                             (s4\<lparr>m_currentMode := Sentinel\<rparr>))"
    have t: "contexts t = [runCommand_lambda cmd d]" "isConnected t" "worker t = []"
      "deferreds t d = Pending"
      "emitted t = emitted s @ new4 @ [Sig_log ''Sentinel detected. Requesting master node...'',
          Sig_addCommandToWorker (internalCommand [''SENTINEL'', ''masters''])]"
      using facts new4 by (simp_all add: t_def)
    have conn5: "isConnected (emit (Sig_log ''Sentinel detected. Requesting master node...'')
                             (s4\<lparr>m_currentMode := Sentinel\<rparr>))"
      using facts by simp
    have "(\<exists>err. err \<noteq> [] \<and> auth_try srv s1 = emit_error err t) \<or>
          (\<exists>h p. auth_try srv s1 = Inr ((), emit (Sig_reconnectTo h p) t))"
      using sentinel auth_sentinel_cases [OF conn5, of srv]
      by (simp add: body t_def [symmetric])
    then show ?thesis
    proof (elim disjE exE conjE)
      fix err :: string
      assume "err \<noteq> []" and "auth_try srv s1 = emit_error err t"
      with emit_error_awaiting [OF t(1), of err]
      have "auth_try srv s1 = Inr ((), (emit (Sig_error err) (t\<lparr>contexts := []\<rparr>))
                                   \<lparr>deferreds := (deferreds t)(d := Cancelled)\<rparr>)"
        by simp
      then have "auth srv s = Inr ((), (emit (Sig_error err) (t\<lparr>contexts := []\<rparr>))
                                   \<lparr>deferreds := (deferreds t)(d := Cancelled)\<rparr>)"
        by (simp add: auth_eq)
      then show ?thesis
        using t new4 by (simp add: state_of_def auth_outcome_def awaiting_connect_def)
    next
      fix h p
      assume "auth_try srv s1 = Inr ((), emit (Sig_reconnectTo h p) t)"
      then have "auth srv s = Inr ((), emit (Sig_reconnectTo h p) t)"
        by (simp add: auth_eq)
      then show ?thesis
        using t new4 by (simp add: state_of_def auth_outcome_def awaiting_connect_def)
    qed
  qed
qed

lemma transporter_error_awaiting:
  assumes "awaiting_connect cmd d s"
  shows "deferreds (state_of (transporter_errorOccurred err s)) d = Cancelled \<and>
         worker (state_of (transporter_errorOccurred err s)) = []"
proof -
  from assms have ctx: "contexts (disconnect s) = [runCommand_lambda cmd d]"
    and idle: "worker (disconnect s) = []"
    by (simp_all add: awaiting_connect_def)
  have "''Disconnect on error: '' @ err \<noteq> []" by simp
  from emit_error_awaiting [OF ctx this] idle show ?thesis
    by (simp add: transporter_errorOccurred_def state_of_def)
qed

text \<open>
  C8. On a connection created with \<open>autoConnect = True\<close> (with a valid configuration, and
  a transporter that can be created), \<open>runCommand\<close> of a valid command returns the future
  of a new deferred object and leaves the command waiting for the connection; nothing is
  handed to the worker. Let \<open>s\<close> be a state in which the command waits so (the state
  after \<open>runCommand\<close>, or a later one after a sentinel's redirect). When \<open>auth\<close> runs in
  \<open>s\<close>, the deferred object follows the future of the command, and the command is with the
  worker, exactly if \<open>auth\<close> emitted \<^verbatim>\<open>authOk\<close>; it is cancelled if \<open>auth\<close> emitted \<^verbatim>\<open>error\<close>;
  and after a redirect the command still waits. When the transporter reports an error in
  \<open>s\<close>, the deferred object is cancelled.
\<close>

theorem autoConnect_future:
  fixes srv :: "string list \<Rightarrow> Response"
  assumes "isValid cmd" and "isValid_config c" and "useSshTunnel c \<longrightarrow> ssh"
    and "awaiting_connect cmd d s"
  shows "(\<exists>st1. runCommand cmd (Connection_new c True ssh a b) = Inr (deferred_future 0, st1) \<and>
                awaiting_connect cmd 0 st1 \<and> issued st1 = []) \<and>
         deferreds (state_of (auth srv s)) d =
           (case auth_outcome (drop (length (emitted s)) (emitted (state_of (auth srv s)))) of
              Succeeded \<Rightarrow> Following (future_of cmd)
            | Failed \<Rightarrow> Cancelled
            | Redirected \<Rightarrow> Pending) \<and>
         worker (state_of (auth srv s)) =
           (if auth_outcome (drop (length (emitted s)) (emitted (state_of (auth srv s)))) = Succeeded
            then [cmd] else []) \<and>
         awaiting_connect cmd d (state_of (auth srv s)) =
           (auth_outcome (drop (length (emitted s)) (emitted (state_of (auth srv s)))) = Redirected) \<and>
         deferreds (state_of (transporter_errorOccurred err s)) d = Cancelled \<and>
         worker (state_of (transporter_errorOccurred err s)) = []"
proof -
  have "awaiting_connect cmd 0
          ((Connection_new c True ssh a b)
            \<lparr>next_deferred := 1, contexts := [runCommand_lambda cmd 0],
             m_transporter := Some (if useSshTunnel c then SshTransporter else DefaultTransporter),
             m_transporterThread := Some True, authError_connections := 1\<rparr>)"
    and "issued ((Connection_new c True ssh a b)
            \<lparr>next_deferred := 1, contexts := [runCommand_lambda cmd 0],
             m_transporter := Some (if useSshTunnel c then SshTransporter else DefaultTransporter),
             m_transporterThread := Some True, authError_connections := 1\<rparr>) = []"
    by (simp_all add: awaiting_connect_def Connection_new_def isConnected_def
        isTransporterRunning_def issued_def)
  with runCommand_fresh [OF assms(1-3), of a b]
  have first: "\<exists>st1. runCommand cmd (Connection_new c True ssh a b) = Inr (deferred_future 0, st1) \<and>
                awaiting_connect cmd 0 st1 \<and> issued st1 = []"
    by blast
  from first auth_round [OF assms(1) assms(4), of srv] transporter_error_awaiting [OF assms(4), of err]
  show ?thesis by blast
qed

lemmas auth_eval =
  auth_def auth_try_def auth_connected_def auth_sentinel_def refreshServerInfo_def
  internalCommandSync_def commandSync_def internalCommand_def runCommand_def
  addCommandToWorker_def cancel_when_destroyed_def emit_authOk_def emit_error_def
  emit_authError_def disconnect_def call_ConnectCallback_def transporter_errorOccurred_def
  isValid_def isConnected_def isTransporterRunning_def emit_def and_then_def state_of_def
  default_db_def Let_def

text \<open>
  A new connection, the command \<^verbatim>\<open>GET key\<close>, and then a plain server, or else a transport
  error.
\<close>

theorem autoConnect_future_witness:
  "deferreds (state_of (auth plain_server
      (state_of (runCommand example_command (Connection_new example_config True False 0 10000))))) 0
     = Following (future_of example_command) \<and>
   worker (state_of (auth plain_server
      (state_of (runCommand example_command (Connection_new example_config True False 0 10000)))))
     = [example_command] \<and>
   deferreds (state_of (transporter_errorOccurred ''Connection timeout''
      (state_of (runCommand example_command (Connection_new example_config True False 0 10000))))) 0
     = Cancelled"
proof -
  define s where
    "s = state_of (runCommand example_command (Connection_new example_config True False 0 10000))"
  have valid: "isValid example_command"
    by (simp add: example_command_def isValid_def)
  have config: "isValid_config example_config" "useSshTunnel example_config \<longrightarrow> False"
    by (simp_all add: example_config_def)
  have s_eq: "s = (Connection_new example_config True False 0 10000)
            \<lparr>next_deferred := 1, contexts := [runCommand_lambda example_command 0],
             m_transporter := Some (if useSshTunnel example_config then SshTransporter
                                    else DefaultTransporter),
             m_transporterThread := Some True, authError_connections := 1\<rparr>"
    unfolding s_def runCommand_fresh [OF valid config] by (simp add: state_of_def)
  have waiting: "awaiting_connect example_command 0 s"
    unfolding s_eq
    by (simp add: awaiting_connect_def Connection_new_def isConnected_def isTransporterRunning_def)
  have mode: "\<not> clusterMode (fromString standalone_info)"
      "\<not> sentinelMode (fromString standalone_info)"
    by (simp_all add: fromString_eval standalone_info_def)
  have events: "emitted (state_of (auth plain_server s)) =
      [Sig_log ''AUTH'', Sig_addCommandToWorker (internalCommand [''PING'']),
       Sig_addCommandToWorker (internalCommand [''INFO'', ''ALL'']), Sig_log ''Connected'',
       Sig_authOk, Sig_addCommandToWorker example_command, Sig_connected]"
    unfolding s_eq
    by (simp add: auth_eval mode plain_server_def value_reply_def Connection_new_def
        example_config_def example_command_def)
  have "emitted s = []"
    unfolding s_eq by (simp add: Connection_new_def)
  then have outcome: "auth_outcome (drop (length (emitted s)) (emitted (state_of (auth plain_server s))))
      = Succeeded"
    by (simp add: events auth_outcome_def)
  from autoConnect_future [OF valid config waiting, of 0 10000 plain_server "''Connection timeout''"]
  show ?thesis
    by (simp add: outcome s_def [symmetric])
qed

section \<open>Properties of the cluster operations\<close>






subsection \<open>The traversal of \<open>flushDbKeys\<close>\<close>

lemma observations_append [simp]:
  "node_commands (es @ es') = node_commands es @ node_commands es'"
  "reconnects (es @ es') = reconnects es @ reconnects es'"
  by (simp_all add: node_commands_def reconnects_def)

lemma observations_Nil [simp]: "node_commands [] = []" "reconnects [] = []"
  by (simp_all add: node_commands_def reconnects_def)
















lemmas cluster_eval =
  cluster_example_def connected_example_def Connection_new_def error_reply_def
  getClusterKeys_def flushDbKeys_def getMasterNodes_def internalCommandSync_def commandSync_def
  internalCommand_def runCommand_def addCommandToWorker_def cancel_when_destroyed_def
  clusterConnectToNextMasterNode_def hasNotVisitedClusterNodes_def isValid_def isConnected_def
  isTransporterRunning_def emit_def and_then_def returns_def state_of_def calls_def Let_def

text \<open>
  The text of the message for a failed connection, for the configured host
  \<open>db.example.com\<close> and for a host name that holds a place marker.
\<close>

lemma cannot_connect_to_node_examples:
  "cannot_connect_to_node cluster_example = ''Cannot connect to cluster node db.example.com:6379''"
  "arg (arg ''Cannot connect to cluster node %1:%2'' ''fe80::1%1'') ''6379'' =
     ''Cannot connect to cluster node fe80::16379:%2''"
  by (simp_all add: cannot_connect_to_node_def cluster_example_def connected_example_def
      Connection_new_def example_config_def number_def arg_def place_marker_def is_digit_def
      digit_value_def Let_def)

text \<open>
  C9 fails on the code when \<open>getMasterNodes\<close> returns no master. Here \<^verbatim>\<open>CLUSTER SLOTS\<close> is
  answered with an error reply, whose value is no list. \<open>getClusterKeys\<close> and
  \<open>flushDbKeys\<close> return; no callback of the caller has been called, no callback waits for
  a connection and no command is pending, so none will be called later either:
  \<open>clusterConnectToNextMasterNode\<close> returns at once when no node is left.
\<close>

theorem cluster_traversal_without_masters:
  "returns (getClusterKeys (\<lambda>rawCmd. error_reply ''ERR This instance has cluster support disabled'' False)
              7 ''*'' cluster_example) \<and>
   calls (state_of (getClusterKeys (\<lambda>rawCmd. error_reply ''ERR This instance has cluster support disabled'' False)
              7 ''*'' cluster_example)) = [] \<and>
   contexts (state_of (getClusterKeys (\<lambda>rawCmd. error_reply ''ERR This instance has cluster support disabled'' False)
              7 ''*'' cluster_example)) = [] \<and>
   worker (state_of (getClusterKeys (\<lambda>rawCmd. error_reply ''ERR This instance has cluster support disabled'' False)
              7 ''*'' cluster_example)) = [] \<and>
   returns (flushDbKeys (\<lambda>rawCmd. error_reply ''ERR This instance has cluster support disabled'' False)
              0 9 cluster_example) \<and>
   calls (state_of (flushDbKeys (\<lambda>rawCmd. error_reply ''ERR This instance has cluster support disabled'' False)
              0 9 cluster_example)) = [] \<and>
   contexts (state_of (flushDbKeys (\<lambda>rawCmd. error_reply ''ERR This instance has cluster support disabled'' False)
              0 9 cluster_example)) = [] \<and>
   worker (state_of (flushDbKeys (\<lambda>rawCmd. error_reply ''ERR This instance has cluster support disabled'' False)
              0 9 cluster_example)) = []"
  by (simp add: cluster_eval)

end
